theory Spec2Isabelle
  imports Complex_Main "HOL-Library.Multiset"
begin

section \<open>JavaScript values used by the scraper\<close>

text \<open>
  A JavaScript string is a sequence of UTF-16 code units, and \<open>length\<close>, \<open>trim\<close>,
  \<open>includes\<close> and the regular expressions of the source all work on code units.
  A string is therefore a list of code units (natural numbers); \<open>js\<close> turns an ASCII
  literal into one. Numbers that the source computes with \<open>/\<close> and decimal constants are
  doubles there and exact reals here; every comparison the detectors make is kept as written.
\<close>

type_synonym jsstring = "nat list"

definition js :: "string \<Rightarrow> jsstring" where
  "js s = map of_char s"

fun startsWith :: "jsstring \<Rightarrow> jsstring \<Rightarrow> bool" where
  "startsWith s [] = True"
| "startsWith [] (p # ps) = False"
| "startsWith (c # cs) (p # ps) = (c = p \<and> startsWith cs ps)"

fun str_includes :: "jsstring \<Rightarrow> jsstring \<Rightarrow> bool" where
  "str_includes [] sub = (sub = [])"
| "str_includes (c # cs) sub = (startsWith (c # cs) sub \<or> str_includes cs sub)"

definition toLowerCase :: "jsstring \<Rightarrow> jsstring" where
  \<comment> \<open>the letters A to Z; other code units are left as they are\<close>
  "toLowerCase s = map (\<lambda>c. if 65 \<le> c \<and> c \<le> 90 then c + 32 else c) s"

definition isWhiteSpace :: "nat \<Rightarrow> bool" where
  \<comment> \<open>WhiteSpace and LineTerminator of ECMAScript: what \<open>trim\<close> strips and \<open>\s\<close> matches\<close>
  "isWhiteSpace c =
     (c \<in> set [9, 10, 11, 12, 13, 32, 160, 5760, 8232, 8233, 8239, 8287, 12288, 65279]
      \<or> (8192 \<le> c \<and> c \<le> 8202))"

definition trim :: "jsstring \<Rightarrow> jsstring" where
  "trim s = rev (dropWhile isWhiteSpace (rev (dropWhile isWhiteSpace s)))"

fun digits :: "nat \<Rightarrow> jsstring" where
  "digits n = (if n < 10 then [48 + n] else digits (n div 10) @ [48 + n mod 10])"

definition int_toString :: "int \<Rightarrow> jsstring" where
  \<comment> \<open>a template literal \<open>${n}\<close> of an integer\<close>
  "int_toString i = (if i < 0 then 45 # digits (nat (- i)) else digits (nat i))"

datatype js_error =
    TypeError jsstring
  | SyntaxError jsstring
  | RuntimeError jsstring

subsection \<open>Array.prototype.sort with a comparator\<close>

text \<open>
  \<open>arr.sort(cmp)\<close> is stable, and for a comparator that orders the elements consistently its
  result is fixed by the language: the elements in comparator order, equal ones in their
  original order. Insertion from the right end computes exactly that list. A comparator result
  that is NaN counts as 0 in the language; the callers below pass it as \<open>0\<close>.
\<close>

fun insert_by :: "('a \<Rightarrow> 'a \<Rightarrow> real) \<Rightarrow> 'a \<Rightarrow> 'a list \<Rightarrow> 'a list" where
  "insert_by cmp x [] = [x]"
| "insert_by cmp x (y # ys) = (if cmp x y \<le> 0 then x # y # ys else y # insert_by cmp x ys)"

definition array_sort :: "('a \<Rightarrow> 'a \<Rightarrow> real) \<Rightarrow> 'a list \<Rightarrow> 'a list" where
  "array_sort cmp xs = foldr (insert_by cmp) xs []"

section \<open>Selector ranking\<close>

text \<open>
  \<open>document.querySelectorAll\<close> belongs to the browser. It is a parameter \<open>qsa\<close> of the
  rankers: for a selector it returns the matched nodes in document order, or throws (\<open>Inl\<close>)
  on a selector it cannot parse. Nodes are compared by identity, which is equality of the
  handles of type \<open>'n\<close>.
\<close>

record ranked_selector =
  selector :: jsstring
  sel_score :: real
  matches :: "nat option"
  isExact :: "bool option"
  complexity :: "nat option"
  sel_error :: "jsstring option"

definition error_message :: "js_error \<Rightarrow> jsstring" where
  "error_message e = (case e of TypeError m \<Rightarrow> m | SyntaxError m \<Rightarrow> m | RuntimeError m \<Rightarrow> m)"

definition first_is :: "'n list \<Rightarrow> 'n \<Rightarrow> bool" where
  \<comment> \<open>\<open>elements[0] === targetElement\<close>; \<open>elements[0]\<close> is undefined for no match\<close>
  "first_is elements target = (case elements of [] \<Rightarrow> False | e # _ \<Rightarrow> e = target)"

definition classCount :: "jsstring \<Rightarrow> nat" where
  \<comment> \<open>\<open>(selector.match(/\./g) || []).length\<close>\<close>
  "classCount sel = count_list sel 46"

definition failed_selector :: "jsstring \<Rightarrow> js_error \<Rightarrow> ranked_selector" where
  "failed_selector sel e =
     \<lparr>selector = sel, sel_score = - 1, matches = None, isExact = None, complexity = None,
      sel_error = Some (error_message e)\<rparr>"

definition table_selector_score :: "jsstring \<Rightarrow> nat \<Rightarrow> bool \<Rightarrow> real" where
  "table_selector_score sel n exact =
     (if exact then 2 else 0)
     + (100 - real (length sel)) / 100
     + max 0 (5 - real n) / 5
     + (if startsWith sel (js ''#'') then 1 else 0)
     + (if str_includes sel (js ''.'') \<and> \<not> str_includes sel (js ''#'')
        then (if 1 \<le> classCount sel \<and> classCount sel \<le> 3 then 0.5 else 0) else 0)"

definition table_rank_one ::
  "(jsstring \<Rightarrow> js_error + 'n list) \<Rightarrow> 'n \<Rightarrow> jsstring \<Rightarrow> ranked_selector" where
  "table_rank_one qsa target sel =
     (case qsa sel of
        Inl e \<Rightarrow> failed_selector sel e
      | Inr elements \<Rightarrow>
          \<lparr>selector = sel,
           sel_score = table_selector_score sel (length elements) (first_is elements target),
           matches = Some (length elements),
           isExact = Some (first_is elements target),
           complexity = Some (length sel),
           sel_error = None\<rparr>)"

definition by_score_desc :: "ranked_selector \<Rightarrow> ranked_selector \<Rightarrow> real" where
  \<comment> \<open>\<open>(a, b) => b.score - a.score\<close>\<close>
  "by_score_desc a b = sel_score b - sel_score a"

definition rankSelectors ::
  "(jsstring \<Rightarrow> js_error + 'n list) \<Rightarrow> jsstring list \<Rightarrow> 'n \<Rightarrow> ranked_selector list" where
  \<comment> \<open>TableDetector.rankSelectors\<close>
  "rankSelectors qsa selectors target =
     take 5 (array_sort by_score_desc
       (filter (\<lambda>s. sel_score s > 0) (map (table_rank_one qsa target) selectors)))"

definition list_selector_score :: "jsstring \<Rightarrow> nat \<Rightarrow> bool \<Rightarrow> real" where
  "list_selector_score sel n exact =
     (if exact then 2 else 0)
     + (100 - real (length sel)) / 100
     + max 0 (10 - real n) / 10
     + (if startsWith sel (js ''#'') then 1.5 else 0)
     + (if str_includes sel (js ''.'') \<and> \<not> str_includes sel (js ''#'')
        then (if classCount sel = 1 then 0.8
              else if classCount sel = 2 then 1.0
              else if classCount sel = 3 then 0.6 else 0) else 0)"

definition list_rank_one ::
  "(jsstring \<Rightarrow> js_error + 'n list) \<Rightarrow> 'n \<Rightarrow> jsstring \<Rightarrow> ranked_selector" where
  \<comment> \<open>the field \<open>complexity\<close> holds what the source names \<open>length\<close> here\<close>
  "list_rank_one qsa target sel =
     (case qsa sel of
        Inl e \<Rightarrow> failed_selector sel e
      | Inr elements \<Rightarrow>
          \<lparr>selector = sel,
           sel_score = list_selector_score sel (length elements) (first_is elements target),
           matches = Some (length elements),
           isExact = Some (first_is elements target),
           complexity = Some (length sel),
           sel_error = None\<rparr>)"

definition list_rankSelectors ::
  "(jsstring \<Rightarrow> js_error + 'n list) \<Rightarrow> jsstring list \<Rightarrow> 'n \<Rightarrow> ranked_selector list" where
  \<comment> \<open>ListDetector.rankSelectors\<close>
  "list_rankSelectors qsa selectors target =
     take 5 (array_sort by_score_desc
       (filter (\<lambda>s. sel_score s > 0) (map (list_rank_one qsa target) selectors)))"

subsection \<open>ProductDetector.calculateSpecificity\<close>

text \<open>
  The four global regular expressions of \<open>calculateSpecificity\<close> are counted by scanners.
  \<open>/#[a-zA-Z][\w\-]*/g\<close> and \<open>/\.[a-zA-Z][\w\-]*/g\<close>: the run after the letter cannot hold
  the marker, so the matches are the places where the marker stands before a letter.
  \<open>/\[[^\]]+\]/g\<close>: an opening bracket, at least one code unit other than the closing bracket,
  up to the next closing bracket. \<open>/[^.#\[ ][a-zA-Z][\w\-]*/g\<close>: the scan resumes after the run
  of word characters and hyphens that a match consumed.
\<close>

definition isLetter :: "nat \<Rightarrow> bool" where
  "isLetter c = ((65 \<le> c \<and> c \<le> 90) \<or> (97 \<le> c \<and> c \<le> 122))"

definition isDigit :: "nat \<Rightarrow> bool" where
  "isDigit c = (48 \<le> c \<and> c \<le> 57)"

definition isWordOrDash :: "nat \<Rightarrow> bool" where
  "isWordOrDash c = (isLetter c \<or> isDigit c \<or> c = 95 \<or> c = 45)"

fun count_marked :: "nat \<Rightarrow> jsstring \<Rightarrow> nat" where
  "count_marked p (a # b # cs) = (if a = p \<and> isLetter b then 1 else 0) + count_marked p (b # cs)"
| "count_marked p cs = 0"

fun count_attr :: "jsstring \<Rightarrow> nat" and attr_body :: "jsstring \<Rightarrow> nat" where
  "count_attr [] = 0"
| "count_attr (a # cs) =
     (if a = 91
      then (case cs of [] \<Rightarrow> 0 | b # ds \<Rightarrow> if b = 93 then count_attr cs else attr_body ds)
      else count_attr cs)"
| "attr_body [] = 0"
| "attr_body (c # cs) = (if c = 93 then 1 + count_attr cs else attr_body cs)"

fun count_elem :: "bool \<Rightarrow> jsstring \<Rightarrow> nat" where
  "count_elem inRun [] = 0"
| "count_elem inRun (a # cs) =
     (if inRun \<and> isWordOrDash a then count_elem True cs
      else (case cs of
              [] \<Rightarrow> 0
            | b # ds \<Rightarrow>
                if a \<notin> set [46, 35, 91, 32] \<and> isLetter b then 1 + count_elem True ds
                else count_elem False cs))"

definition calculateSpecificity :: "jsstring \<Rightarrow> nat" where
  "calculateSpecificity sel =
     count_marked 35 sel * 100 + count_marked 46 sel * 10 + count_attr sel * 10
     + count_elem False sel"

subsection \<open>ProductDetector.rankProductSelectors\<close>

definition product_selector_score :: "jsstring \<Rightarrow> nat \<Rightarrow> bool \<Rightarrow> real" where
  "product_selector_score sel n exact =
     (if exact then 3 else 0)
     + (150 - real (length sel)) / 150
     + (if n = 1 then 2
        else if n \<le> 3 then 1.5
        else if n \<le> 10 then 1
        else max 0 ((20 - real n) / 20))
     + (if startsWith sel (js ''#'') then 2 else 0)
     + (if str_includes sel (js ''.'') \<and> \<not> str_includes sel (js ''#'')
        then (if classCount sel = 1 then 1.2
              else if classCount sel = 2 then 1.5
              else if classCount sel = 3 then 1.0 else 0.5) else 0)
     + (if str_includes sel (js '' > '') then 0.8 else 0)
     + (if str_includes sel (js ''['') then 0.5 else 0)"

definition product_rank_one ::
  "(jsstring \<Rightarrow> js_error + 'n list) \<Rightarrow> 'n \<Rightarrow> jsstring \<Rightarrow> ranked_selector" where
  \<comment> \<open>the field \<open>complexity\<close> holds what the source names \<open>specificity\<close> here\<close>
  "product_rank_one qsa target sel =
     (case qsa sel of
        Inl e \<Rightarrow> failed_selector sel e
      | Inr elements \<Rightarrow>
          \<lparr>selector = sel,
           sel_score =
             max 0 (product_selector_score sel (length elements) (first_is elements target)),
           matches = Some (length elements),
           isExact = Some (first_is elements target),
           complexity = Some (calculateSpecificity sel),
           sel_error = None\<rparr>)"

definition rankProductSelectors ::
  "(jsstring \<Rightarrow> js_error + 'n list) \<Rightarrow> jsstring list \<Rightarrow> 'n \<Rightarrow> ranked_selector list" where
  "rankProductSelectors qsa selectors target =
     take 5 (array_sort by_score_desc
       (filter (\<lambda>s. sel_score s > 0) (map (product_rank_one qsa target) selectors)))"

section \<open>The document tree\<close>

text \<open>
  The detectors only read the tree. A node carries the properties they read; \<open>children\<close> are
  its element children in document order. \<open>node_id\<close> stands for the identity of the node:
  two nodes of one document differ in it, so that equality of nodes is identity (what
  \<open>===\<close> and \<open>Set\<close> compare). \<open>rect_width\<close> and \<open>rect_height\<close> are those of
  \<open>getBoundingClientRect()\<close>, \<open>display\<close> that of \<open>getComputedStyle\<close>.
\<close>

record dom_props =
  node_id :: nat
  tagName :: jsstring
  elem_id :: jsstring
  className :: jsstring
  attributes :: "(jsstring \<times> jsstring) list"
  textContent :: jsstring
  innerHTML :: jsstring
  rect_width :: real
  rect_height :: real
  offsetWidth :: int
  offsetHeight :: int
  display :: jsstring

datatype element = Element (props: dom_props) (children: "element list")

definition is_tag :: "jsstring \<Rightarrow> element \<Rightarrow> bool" where
  \<comment> \<open>\<open>el.tagName.toLowerCase() === t\<close>\<close>
  "is_tag t e = (toLowerCase (tagName (props e)) = t)"

definition getAttribute :: "element \<Rightarrow> jsstring \<Rightarrow> jsstring option" where
  "getAttribute e a = map_of (attributes (props e)) a"

definition section_rows :: "element \<Rightarrow> element list" where
  "section_rows e = filter (is_tag (js ''tr'')) (children e)"

definition rows :: "element \<Rightarrow> element list" where
  \<comment> \<open>\<open>table.rows\<close>: the rows of the head sections, then those of the bodies and the rows
      that are children of the table, in tree order, then those of the foot sections\<close>
  "rows t =
     concat (map section_rows (filter (is_tag (js ''thead'')) (children t)))
     @ concat (map (\<lambda>c. if is_tag (js ''tr'') c then [c]
                        else if is_tag (js ''tbody'') c then section_rows c else [])
               (children t))
     @ concat (map section_rows (filter (is_tag (js ''tfoot'')) (children t)))"

definition cells :: "element \<Rightarrow> element list" where
  \<comment> \<open>\<open>row.cells\<close>\<close>
  "cells r = filter (\<lambda>c. is_tag (js ''td'') c \<or> is_tag (js ''th'') c) (children r)"

fun descendants :: "element \<Rightarrow> element list" where
  "descendants (Element p cs) = concat (map (\<lambda>c. c # descendants c) cs)"

record 'm candidate =
  element :: element
  score :: real
  confidence :: real
  reasons :: "jsstring list"
  metadata :: 'm

definition candidates_desc :: "'m candidate \<Rightarrow> 'm candidate \<Rightarrow> real" where
  \<comment> \<open>\<open>(a, b) => b.score - a.score\<close>\<close>
  "candidates_desc a b = score b - score a"

definition getTextDensity :: "element \<Rightarrow> real" where
  \<comment> \<open>the same function in TableDetector and ListDetector\<close>
  "getTextDensity e =
     (let textLength = length (trim (textContent (props e)));
          htmlLength = length (innerHTML (props e))
      in if htmlLength = 0 then 0 else real textLength / real htmlLength)"

section \<open>TableDetector\<close>

record table_metadata =
  md_rows :: nat
  md_columns :: nat
  md_textDensity :: real
  md_tagName :: jsstring

definition table_CONFIDENCE_THRESHOLD :: real where
  "table_CONFIDENCE_THRESHOLD = 0.6"

definition isBlockLike :: "element \<Rightarrow> bool" where
  "isBlockLike child =
     (str_includes (display (props child)) (js ''block'')
      \<or> str_includes (display (props child)) (js ''flex'')
      \<or> str_includes (display (props child)) (js ''grid''))"

definition getRowCount :: "element \<Rightarrow> nat" where
  "getRowCount t =
     (if is_tag (js ''table'') t then length (rows t)
      else length (filter (\<lambda>child. isBlockLike child \<and> offsetHeight (props child) > 0)
                    (children t)))"

definition getColumnCount :: "element \<Rightarrow> nat" where
  "getColumnCount t =
     (if is_tag (js ''table'') t
      then (case rows t of [] \<Rightarrow> 0 | firstRow # _ \<Rightarrow> length (cells firstRow))
      else foldl (\<lambda>maxColumns row. max maxColumns (length (children row))) 0
             (take 5 (children t)))"

definition getDivStructureScore :: "element \<Rightarrow> real" where
  "getDivStructureScore d =
     (let cs = children d in
      if length cs < 2 then 0
      else let firstRowChildren = length (children (cs ! 0));
               consistentRows =
                 length (filter (\<lambda>i. length (children (cs ! i)) = firstRowChildren)
                           [1 ..< min 5 (length cs)])
           in real consistentRows / real (min 5 (length cs - 1)))"

definition getStructureScore :: "element \<Rightarrow> real" where
  "getStructureScore t =
     (if \<not> is_tag (js ''table'') t then getDivStructureScore t
      else let rs = rows t in
        if length rs < 2 then 0
        else let firstRowCols = length (cells (rs ! 0));
                 consistentRows =
                   length (filter (\<lambda>i. length (cells (rs ! i)) = firstRowCols)
                             [1 ..< min 10 (length rs)])
             in real consistentRows / real (min 10 (length rs - 1)))"

definition table_attr_bonus :: "element \<Rightarrow> jsstring \<Rightarrow> real" where
  \<comment> \<open>\<open>value && value.toLowerCase().includes('table') || value.toLowerCase().includes('grid')\<close>\<close>
  "table_attr_bonus t attr =
     (case getAttribute t attr of
        None \<Rightarrow> 0
      | Some v \<Rightarrow>
          if (v \<noteq> [] \<and> str_includes (toLowerCase v) (js ''table''))
             \<or> str_includes (toLowerCase v) (js ''grid'')
          then 0.1 else 0)"

definition word_bonus :: "real \<Rightarrow> jsstring \<Rightarrow> jsstring list \<Rightarrow> real" where
  \<comment> \<open>\<open>words.forEach(word => { if (s.includes(word)) score += w })\<close>\<close>
  "word_bonus w s ws = sum_list (map (\<lambda>word. if str_includes s word then w else 0) ws)"

definition table_getSemanticScore :: "element \<Rightarrow> real" where
  "table_getSemanticScore t =
     min 0.25
       (sum_list (map (table_attr_bonus t)
                    [js ''role'', js ''aria-label'', js ''data-table'', js ''data-grid''])
        + word_bonus 0.05 (toLowerCase (className (props t)))
            [js ''table'', js ''grid'', js ''list'', js ''data'', js ''results'', js ''products'']
        + word_bonus 0.02 (toLowerCase (textContent (props t)))
            [js ''price'', js ''total'', js ''quantity'', js ''description'', js ''name''])"

definition table_raw_score :: "element \<Rightarrow> real" where
  \<comment> \<open>the local \<open>score\<close> of \<open>scoreTables\<close> when the object is built\<close>
  "table_raw_score t =
     (if is_tag (js ''table'') t then 0.3 else 0)
     + (if getRowCount t \<ge> 5 then 0.2 else 0)
     + (if getColumnCount t \<ge> 3 then 0.15 else 0)
     + (if getTextDensity t > 0.1 then 0.1 else 0)
     + getStructureScore t * 0.15
     + table_getSemanticScore t
     + (if rect_width (props t) > 100 \<and> rect_height (props t) > 50 then 0.1 else 0)"

definition table_reasons :: "element \<Rightarrow> jsstring list" where
  "table_reasons t =
     (if is_tag (js ''table'') t then [js ''Native table element''] else [])
     @ (if getRowCount t \<ge> 5 then [js ''Has 5+ rows''] else [])
     @ (if getColumnCount t \<ge> 3 then [js ''Has 3+ columns''] else [])
     @ (if getTextDensity t > 0.1 then [js ''Good text density''] else [])
     @ (if getStructureScore t > 0.7 then [js ''Consistent structure''] else [])
     @ (if rect_width (props t) > 100 \<and> rect_height (props t) > 50
        then [js ''Visible on screen''] else [])"

definition scoreTable :: "element \<Rightarrow> table_metadata candidate" where
  "scoreTable t =
     \<lparr>element = t,
      score = min 1 (table_raw_score t),
      confidence = table_raw_score t,
      reasons = table_reasons t,
      metadata = \<lparr>md_rows = getRowCount t, md_columns = getColumnCount t,
                  md_textDensity = getTextDensity t, md_tagName = tagName (props t)\<rparr>\<rparr>"

definition scoreTables :: "element list \<Rightarrow> table_metadata candidate list" where
  "scoreTables tables =
     array_sort candidates_desc
       (filter (\<lambda>c. score c \<ge> table_CONFIDENCE_THRESHOLD) (map scoreTable tables))"

section \<open>ListDetector\<close>

record list_metadata =
  md_items :: nat
  md_listTag :: jsstring
  md_listDensity :: real

definition list_CONFIDENCE_THRESHOLD :: real where
  "list_CONFIDENCE_THRESHOLD = 0.5"

definition isNativeList :: "element \<Rightarrow> bool" where
  "isNativeList l = (is_tag (js ''ul'') l \<or> is_tag (js ''ol'') l)"

definition getItemCount :: "element \<Rightarrow> nat" where
  "getItemCount l =
     (if isNativeList l then length (children l)
      else length (filter (\<lambda>child. offsetHeight (props child) > 0) (children l)))"

definition getConsistencyScore :: "element \<Rightarrow> real" where
  "getConsistencyScore l =
     (let cs = children l in
      if length cs < 2 then 0
      else let firstChild = cs ! 0;
               similarCount =
                 length (filter (\<lambda>i. tagName (props (cs ! i)) = tagName (props firstChild)
                                      \<and> className (props (cs ! i)) = className (props firstChild))
                           [1 ..< min 10 (length cs)])
           in real similarCount / real (min 10 (length cs - 1)))"

definition list_attr_bonus :: "element \<Rightarrow> jsstring \<Rightarrow> real" where
  \<comment> \<open>\<open>value && value.toLowerCase().includes('list') || value.toLowerCase().includes('items')\<close>\<close>
  "list_attr_bonus l attr =
     (case getAttribute l attr of
        None \<Rightarrow> 0
      | Some v \<Rightarrow>
          if (v \<noteq> [] \<and> str_includes (toLowerCase v) (js ''list''))
             \<or> str_includes (toLowerCase v) (js ''items'')
          then 0.1 else 0)"

definition list_getSemanticScore :: "element \<Rightarrow> real" where
  "list_getSemanticScore l =
     min 0.25
       (sum_list (map (list_attr_bonus l)
                    [js ''role'', js ''aria-label'', js ''data-list'', js ''data-items''])
        + word_bonus 0.05 (toLowerCase (className (props l)))
            [js ''list'', js ''items'', js ''collection'', js ''products'', js ''menu'',
             js ''nav''])"

definition list_raw_score :: "element \<Rightarrow> real" where
  "list_raw_score l =
     (if isNativeList l then 0.3 else 0)
     + (if getItemCount l \<ge> 5 then 0.2 else 0)
     + getConsistencyScore l * 0.2
     + (if getTextDensity l > 0.2 then 0.1 else 0)
     + list_getSemanticScore l
     + (if rect_width (props l) > 50 \<and> rect_height (props l) > 50 then 0.1 else 0)"

definition list_reasons :: "element \<Rightarrow> jsstring list" where
  "list_reasons l =
     (if isNativeList l then [js ''Native list element''] else [])
     @ (if getItemCount l \<ge> 5 then [js ''Has '' @ digits (getItemCount l) @ js '' items'']
        else [])
     @ (if getConsistencyScore l > 0.7 then [js ''Consistent items''] else [])
     @ (if getTextDensity l > 0.2 then [js ''Good text content''] else [])
     @ (if rect_width (props l) > 50 \<and> rect_height (props l) > 50
        then [js ''Visible on screen''] else [])"

definition scoreList :: "element \<Rightarrow> list_metadata candidate" where
  "scoreList l =
     \<lparr>element = l,
      score = min 1 (list_raw_score l),
      confidence = list_raw_score l,
      reasons = list_reasons l,
      metadata = \<lparr>md_items = getItemCount l, md_listTag = toLowerCase (tagName (props l)),
                  md_listDensity = getTextDensity l\<rparr>\<rparr>"

definition scoreLists :: "element list \<Rightarrow> list_metadata candidate list" where
  "scoreLists ls =
     array_sort candidates_desc
       (filter (\<lambda>c. score c \<ge> list_CONFIDENCE_THRESHOLD) (map scoreList ls))"

section \<open>ProductDetector\<close>

subsection \<open>The price patterns\<close>

text \<open>
  \<open>pattern.test(text)\<close> asks whether some substring of the text matches. The patterns are
  regular expressions without back-references or look-around, so a match exists exactly when
  the expression, read as a regular language, has a word that starts somewhere in the text;
  derivatives decide it. Under the flag \<open>i\<close> a letter of the pattern matches both of its
  cases.
\<close>

datatype regex =
    Zero
  | One
  | Atom "nat \<Rightarrow> bool"
  | Alt regex regex
  | Seq regex regex
  | Star regex

fun nullable :: "regex \<Rightarrow> bool" where
  "nullable Zero = False"
| "nullable One = True"
| "nullable (Atom p) = False"
| "nullable (Alt r s) = (nullable r \<or> nullable s)"
| "nullable (Seq r s) = (nullable r \<and> nullable s)"
| "nullable (Star r) = True"

fun deriv :: "nat \<Rightarrow> regex \<Rightarrow> regex" where
  "deriv c Zero = Zero"
| "deriv c One = Zero"
| "deriv c (Atom p) = (if p c then One else Zero)"
| "deriv c (Alt r s) = Alt (deriv c r) (deriv c s)"
| "deriv c (Seq r s) =
     (if nullable r then Alt (Seq (deriv c r) s) (deriv c s) else Seq (deriv c r) s)"
| "deriv c (Star r) = Seq (deriv c r) (Star r)"

fun matches_prefix :: "regex \<Rightarrow> jsstring \<Rightarrow> bool" where
  "matches_prefix r [] = nullable r"
| "matches_prefix r (c # cs) = (nullable r \<or> matches_prefix (deriv c r) cs)"

fun regex_test :: "regex \<Rightarrow> jsstring \<Rightarrow> bool" where
  "regex_test r [] = nullable r"
| "regex_test r (c # cs) = (matches_prefix r (c # cs) \<or> regex_test r cs)"

definition Lit :: "nat \<Rightarrow> regex" where
  "Lit c = Atom (\<lambda>x. x = c)"

definition Plus :: "regex \<Rightarrow> regex" where
  "Plus r = Seq r (Star r)"

definition Opt :: "regex \<Rightarrow> regex" where
  "Opt r = Alt r One"

definition LetterCI :: "char \<Rightarrow> regex" where
  \<comment> \<open>an upper-case letter of a pattern with the flag \<open>i\<close>\<close>
  "LetterCI c = Atom (\<lambda>x. x = of_char c \<or> x = of_char c + 32)"

definition digit_or_comma :: regex where
  \<comment> \<open>\<open>[\d,]\<close>\<close>
  "digit_or_comma = Atom (\<lambda>x. isDigit x \<or> x = 44)"

definition cents :: regex where
  \<comment> \<open>\<open>(?:\.\d{2})?\<close>\<close>
  "cents = Opt (Seq (Lit 46) (Seq (Atom isDigit) (Atom isDigit)))"

definition symbol_price :: "nat \<Rightarrow> regex" where
  "symbol_price symb = Seq (Lit symb) (Seq (Plus digit_or_comma) cents)"

definition currency_code :: "string \<Rightarrow> regex" where
  "currency_code w = foldr (\<lambda>c r. Seq (LetterCI c) r) w One"

definition PRICE_PATTERNS :: "regex list" where
  \<comment> \<open>the dollar sign, the euro sign U+20AC, the pound sign U+00A3, the yen sign U+00A5, and
      an amount before USD, EUR, GBP or JPY\<close>
  "PRICE_PATTERNS =
     [symbol_price 36, symbol_price 8364, symbol_price 163, symbol_price 165,
      Seq (Plus digit_or_comma)
        (Seq cents
          (Seq (Star (Atom isWhiteSpace))
            (Alt (currency_code ''USD'')
              (Alt (currency_code ''EUR'')
                (Alt (currency_code ''GBP'') (currency_code ''JPY''))))))]"

definition containsPrice :: "jsstring \<Rightarrow> bool" where
  "containsPrice txt = (txt \<noteq> [] \<and> list_ex (\<lambda>pattern. regex_test pattern txt) PRICE_PATTERNS)"

subsection \<open>The fixed selectors of \<open>querySelector\<close>\<close>

text \<open>
  The selectors that the detectors pass to \<open>element.querySelector\<close> are constants of the source:
  comma-separated groups of a tag name, a class, an attribute with a value, or a class
  attribute containing a substring. \<open>querySelector\<close> returns the first descendant, in document
  order, that one member of the group matches, and \<open>null\<close> (\<open>None\<close>) when there is none.
\<close>

datatype simple_selector =
    ByTag jsstring
  | ByClass jsstring
  | ClassContains jsstring
  | AttrIs jsstring jsstring

fun class_tokens :: "jsstring \<Rightarrow> jsstring \<Rightarrow> jsstring list" where
  \<comment> \<open>the class list: the class attribute split at ASCII white space\<close>
  "class_tokens cur [] = (if cur = [] then [] else [rev cur])"
| "class_tokens cur (c # cs) =
     (if c \<in> set [9, 10, 12, 13, 32]
      then (if cur = [] then [] else [rev cur]) @ class_tokens [] cs
      else class_tokens (c # cur) cs)"

fun sel_matches :: "simple_selector \<Rightarrow> element \<Rightarrow> bool" where
  "sel_matches (ByTag t) e = is_tag t e"
| "sel_matches (ByClass c) e = (c \<in> set (class_tokens [] (className (props e))))"
| "sel_matches (ClassContains s) e = str_includes (className (props e)) s"
| "sel_matches (AttrIs a v) e = (getAttribute e a = Some v)"

definition querySelector :: "element \<Rightarrow> simple_selector list \<Rightarrow> element option" where
  "querySelector e grp = find (\<lambda>d. list_ex (\<lambda>s. sel_matches s d) grp) (descendants e)"

subsection \<open>isProductLike and the grid finder\<close>

definition hasPrice :: "element \<Rightarrow> bool" where
  "hasPrice e = containsPrice (textContent (props e))"

definition hasImage :: "element \<Rightarrow> bool" where
  \<comment> \<open>\<open>element.querySelector('img') !== null\<close>\<close>
  "hasImage e = (querySelector e [ByTag (js ''img'')] \<noteq> None)"

definition hasButton :: "element \<Rightarrow> bool" where
  \<comment> \<open>\<open>element.querySelector('button, .btn, [role="button"]') !== null\<close>\<close>
  "hasButton e =
     (querySelector e [ByTag (js ''button''), ByClass (js ''btn''),
                       AttrIs (js ''role'') (js ''button'')] \<noteq> None)"

definition hasTitle :: "element \<Rightarrow> bool" where
  \<comment> \<open>\<open>element.querySelector('h1, h2, h3, h4, [class*="title"], [class*="name"]') !== null\<close>\<close>
  "hasTitle e =
     (querySelector e [ByTag (js ''h1''), ByTag (js ''h2''), ByTag (js ''h3''), ByTag (js ''h4''),
                       ClassContains (js ''title''), ClassContains (js ''name'')] \<noteq> None)"

definition hasProductSize :: "element \<Rightarrow> bool" where
  "hasProductSize e = (rect_width (props e) > 100 \<and> rect_height (props e) > 50)"

definition productLikeScore :: "element \<Rightarrow> nat" where
  \<comment> \<open>the local \<open>score\<close> of \<open>isProductLike\<close>\<close>
  "productLikeScore e =
     (if hasPrice e then 3 else 0) + (if hasImage e then 2 else 0)
     + (if hasButton e then 1 else 0) + (if hasTitle e then 1 else 0)
     + (if hasProductSize e then 1 else 0)"

fun isProductLike :: "element option \<Rightarrow> bool" where
  "isProductLike None = False"
| "isProductLike (Some e) = (productLikeScore e \<ge> 3)"

definition all_elements :: "element \<Rightarrow> element list" where
  \<comment> \<open>the elements of the document whose root element is given, in document order\<close>
  "all_elements doc = doc # descendants doc"

definition isGridProductContainer :: "element \<Rightarrow> bool" where
  \<comment> \<open>the filter of \<open>findGridProducts\<close>\<close>
  "isGridProductContainer el =
     (if \<not> str_includes (display (props el)) (js ''grid'')
         \<and> \<not> str_includes (display (props el)) (js ''flex'') then False
      else if length (children el) < 2 then False
      else length (filter (\<lambda>i. isProductLike (Some (children el ! i)))
                     [0 ..< min 5 (length (children el))]) \<ge> 2)"

definition findGridProducts :: "element \<Rightarrow> element list" where
  "findGridProducts doc =
     filter isGridProductContainer
       (filter (\<lambda>e. is_tag (js ''div'') e \<or> is_tag (js ''section'') e
                    \<or> is_tag (js ''ul'') e \<or> is_tag (js ''li'') e)
          (all_elements doc))"

subsection \<open>scoreContainers\<close>

record pattern_score =
  consistentStructure :: real
  consistentClasses :: real
  consistentSize :: real

record product_metadata =
  md_childCount :: nat
  md_productItems :: nat
  md_patternScore :: pattern_score

definition product_CONFIDENCE_THRESHOLD :: real where
  "product_CONFIDENCE_THRESHOLD = 0.6"

definition analyzePattern :: "element list \<Rightarrow> pattern_score" where
  "analyzePattern cs =
     (let samples = take (min 5 (length cs)) cs;
          uniqueTags = remdups (map (\<lambda>child. tagName (props child)) samples);
          uniqueClasses =
            remdups (filter (\<lambda>c. c \<noteq> []) (map (\<lambda>child. className (props child)) samples));
          sameSize =
            (case samples of
               [] \<Rightarrow> True
             | first # _ \<Rightarrow>
                 list_all (\<lambda>child.
                     \<bar>offsetWidth (props child) - offsetWidth (props first)\<bar> < 50
                     \<and> \<bar>offsetHeight (props child) - offsetHeight (props first)\<bar> < 50)
                   samples)
      in \<lparr>consistentStructure = (if length uniqueTags = 1 then 1.0 else 0.5),
          consistentClasses = (if length uniqueClasses \<le> 2 then 1.0 else 0.3),
          consistentSize = (if sameSize then 1.0 else 0.2)\<rparr>)"

definition countProductChildren :: "element \<Rightarrow> nat" where
  "countProductChildren container =
     length (filter (\<lambda>i. isProductLike (Some (children container ! i)))
               [0 ..< min 10 (length (children container))])"

definition product_attr_bonus :: "element \<Rightarrow> jsstring \<Rightarrow> real" where
  "product_attr_bonus e attr =
     (case getAttribute e attr of
        None \<Rightarrow> 0
      | Some v \<Rightarrow>
          if str_includes (toLowerCase v) (js ''product'')
             \<or> str_includes (toLowerCase v) (js ''grid'')
             \<or> str_includes (toLowerCase v) (js ''list'')
          then 0.1 else 0)"

definition product_getSemanticScore :: "element \<Rightarrow> real" where
  "product_getSemanticScore e =
     min 0.25
       (sum_list (map (product_attr_bonus e)
                    [js ''role'', js ''data-product'', js ''data-items'', js ''aria-label''])
        + word_bonus 0.05 (toLowerCase (className (props e)))
            [js ''product'', js ''catalog'', js ''grid'', js ''list'', js ''items'', js ''shop'',
             js ''store'']
        + (if str_includes (toLowerCase (elem_id (props e))) (js ''product'')
              \<or> str_includes (toLowerCase (elem_id (props e))) (js ''catalog'')
           then 0.1 else 0))"

definition productRatio :: "element \<Rightarrow> real" where
  "productRatio container =
     real (countProductChildren container) / real (max 1 (length (children container)))"

definition patternAverage :: "pattern_score \<Rightarrow> real" where
  "patternAverage p = (consistentStructure p + consistentClasses p + consistentSize p) / 3"

definition product_raw_score :: "element \<Rightarrow> real" where
  "product_raw_score container =
     (if length (children container) \<ge> 3 then 0.2 else 0)
     + productRatio container * 0.3
     + patternAverage (analyzePattern (children container)) * 0.2
     + product_getSemanticScore container
     + (if rect_width (props container) > 200 \<and> rect_height (props container) > 100
        then 0.1 else 0)"

definition product_reasons :: "element \<Rightarrow> jsstring list" where
  \<comment> \<open>\<open>Math.round(x)\<close> is \<open>\<lfloor>x + 1/2\<rfloor>\<close>\<close>
  "product_reasons container =
     (if length (children container) \<ge> 3
      then [js ''Has '' @ digits (length (children container)) @ js '' items''] else [])
     @ (if productRatio container > 0.5
        then [digits (nat \<lfloor>productRatio container * 100 + 1 / 2\<rfloor>)
              @ js ''% product-like items''] else [])
     @ (if consistentStructure (analyzePattern (children container)) > 0.8
        then [js ''Consistent structure''] else [])
     @ (if rect_width (props container) > 200 \<and> rect_height (props container) > 100
        then [js ''Good visibility''] else [])"

definition scoreContainer :: "element \<Rightarrow> product_metadata candidate" where
  "scoreContainer container =
     \<lparr>element = container,
      score = min 1 (product_raw_score container),
      confidence = product_raw_score container,
      reasons = product_reasons container,
      metadata = \<lparr>md_childCount = length (children container),
                  md_productItems = countProductChildren container,
                  md_patternScore = analyzePattern (children container)\<rparr>\<rparr>"

definition scoreContainers :: "element list \<Rightarrow> product_metadata candidate list" where
  "scoreContainers containers =
     array_sort candidates_desc
       (filter (\<lambda>c. score c \<ge> product_CONFIDENCE_THRESHOLD) (map scoreContainer containers))"

section \<open>DOMScanner\<close>

text \<open>
  The class \<open>DOMScanner\<close> defines \<open>scrape\<close>, \<open>autoDetect\<close>, \<open>detectTables\<close>,
  \<open>extractTableData\<close>, \<open>extractProducts\<close>, \<open>isLikelyProduct\<close>, \<open>extractProductData\<close>,
  \<open>extractText\<close> and \<open>extractAttribute\<close>. It calls \<open>this.detectLists\<close>,
  \<open>this.detectProducts\<close>, \<open>this.extractTables\<close>, \<open>this.extractLists\<close> and
  \<open>this.extractWithSelectors\<close>, none of which the class (or any other file) defines:
  each of these calls reads \<open>undefined\<close> and throws a TypeError.
\<close>

definition undefined_method :: "string \<Rightarrow> js_error" where
  "undefined_method m = TypeError (js ''this.'' @ js m @ js '' is not a function'')"

fun add_all :: "'a list \<Rightarrow> 'a list \<Rightarrow> 'a list" where
  \<comment> \<open>\<open>new Set\<close>: insertion order, a value already present is not added again\<close>
  "add_all seen [] = seen"
| "add_all seen (x # xs) = add_all (if x \<in> set seen then seen else seen @ [x]) xs"

definition spread_set :: "'a list \<Rightarrow> 'a list" where
  \<comment> \<open>\<open>[...new Set(arr)]\<close>\<close>
  "spread_set xs = add_all [] xs"

record 'a processor =
  name :: jsstring
  args :: "'a list option"

record 'a config =
  mode :: jsstring
  selectors :: "jsstring list option"
  processors :: "'a processor list option"

record table_data =
  headers :: "jsstring list"
  data_rows :: "(jsstring \<times> jsstring) list list"
  table_element :: element

record 'd detection =
  det_type :: jsstring
  det_data :: "'d list option"
  det_confidence :: real

definition extractTableData :: "element \<Rightarrow> table_data" where
  "extractTableData t =
     \<lparr>headers = map (\<lambda>th. trim (textContent (props th)))
                  (filter (is_tag (js ''th'')) (descendants t)),
      data_rows =
        map (\<lambda>row. map (\<lambda>(j, cell). (js ''col'' @ digits j, trim (textContent (props cell))))
                      (enumerate 0 (cells row)))
          (rows t),
      table_element = t\<rparr>"

definition detectTables :: "element \<Rightarrow> table_data detection" where
  "detectTables doc =
     (let tables = take 20 (filter (is_tag (js ''table'')) (all_elements doc))
      in \<lparr>det_type = js ''tables'',
          det_data = Some (map extractTableData tables),
          det_confidence = (if length tables > 0 then 0.9 else 0)\<rparr>)"

definition caught :: "js_error + 'r \<Rightarrow> 'r option" where
  \<comment> \<open>\<open>try { return detector(); } catch (e) { return null; }\<close>\<close>
  "caught outcome = (case outcome of Inl e \<Rightarrow> None | Inr r \<Rightarrow> Some r)"

fun keep_best ::
  "'d detection option \<Rightarrow> 'd detection option \<Rightarrow> js_error + 'd detection option" where
  \<comment> \<open>the callback of \<open>results.reduce\<close>; \<open>best.data.length\<close> throws when \<open>best\<close> has no data\<close>
  "keep_best best None = Inr best"
| "keep_best best (Some current) =
     (case det_data current of
        None \<Rightarrow> Inr best
      | Some cd \<Rightarrow>
          (case best of
             None \<Rightarrow> Inr (Some current)
           | Some b \<Rightarrow>
               (case det_data b of
                  None \<Rightarrow> Inl (TypeError (js ''Cannot read properties of undefined''))
                | Some bd \<Rightarrow> if length cd > length bd then Inr (Some current) else Inr best)))"

fun reduce_best ::
  "'d detection option \<Rightarrow> 'd detection option list \<Rightarrow> js_error + 'd detection option" where
  "reduce_best best [] = Inr best"
| "reduce_best best (current # rest) =
     (case keep_best best current of Inl e \<Rightarrow> Inl e | Inr b \<Rightarrow> reduce_best b rest)"

definition autoDetectWith :: "(js_error + 'd detection) list \<Rightarrow> js_error + 'd detection option" where
  \<comment> \<open>\<open>autoDetect\<close> for the outcomes of the calls of its detectors\<close>
  "autoDetectWith outcomes = reduce_best None (map caught outcomes)"

definition detectors :: "element \<Rightarrow> (js_error + table_data detection) list" where
  "detectors doc =
     [Inr (detectTables doc),
      Inl (undefined_method ''detectLists''),
      Inl (undefined_method ''detectProducts'')]"

definition autoDetect :: "element \<Rightarrow> js_error + table_data detection option" where
  "autoDetect doc = autoDetectWith (detectors doc)"

subsection \<open>extractProducts\<close>

record product_data =
  pd_title :: jsstring
  pd_price :: jsstring
  pd_image :: "jsstring option"
  pd_url :: "jsstring option"
  pd_description :: jsstring
  pd_rating :: jsstring
  pd_element :: element

definition productPatterns :: "jsstring list" where
  "productPatterns =
     [js ''.product, [class*=\"product\"], [class*=\"item\"]'',
      js ''.card, [class*=\"card\"]'',
      js ''[class*=\"grid\"] > div, [class*=\"list\"] > div'',
      js ''.product-item, .product-card, .item-box'']"

definition likely_price :: regex where
  \<comment> \<open>the pattern of \<open>isLikelyProduct\<close>: a dollar, euro (U+20AC) or pound (U+00A3) sign,
      \<open>\s*\<close>, \<open>\d+\<close>, a dot or a comma, two digits\<close>
  "likely_price =
     Seq (Alt (Lit 36) (Alt (Lit 8364) (Lit 163)))
       (Seq (Star (Atom isWhiteSpace))
         (Seq (Plus (Atom isDigit))
           (Seq (Atom (\<lambda>x. x = 46 \<or> x = 44)) (Seq (Atom isDigit) (Atom isDigit)))))"

definition isLikelyProduct :: "element \<Rightarrow> bool" where
  "isLikelyProduct e =
     ((regex_test likely_price (textContent (props e))
       \<or> querySelector e [ByTag (js ''img'')] \<noteq> None)
      \<and> (length (children e) > 1
         \<or> querySelector e [ByTag (js ''button''), ClassContains (js ''btn''),
                              ClassContains (js ''button'')] \<noteq> None))"

fun extractText :: "element \<Rightarrow> simple_selector list list \<Rightarrow> jsstring" where
  "extractText e [] = []"
| "extractText e (grp # grps) =
     (case querySelector e grp of
        None \<Rightarrow> extractText e grps
      | Some found \<Rightarrow>
          if trim (textContent (props found)) \<noteq> [] then trim (textContent (props found))
          else extractText e grps)"

definition extractAttribute :: "element \<Rightarrow> jsstring \<Rightarrow> jsstring \<Rightarrow> jsstring option" where
  \<comment> \<open>\<open>None\<close> is the \<open>null\<close> that \<open>getAttribute\<close> returns for a missing attribute\<close>
  "extractAttribute e t a =
     (case querySelector e [ByTag t] of None \<Rightarrow> Some [] | Some el \<Rightarrow> getAttribute el a)"

definition extractProductData :: "element \<Rightarrow> product_data" where
  "extractProductData e =
     \<lparr>pd_title = extractText e [[ByTag (js ''h1'')], [ByTag (js ''h2'')], [ByTag (js ''h3'')],
                   [ClassContains (js ''title''), ClassContains (js ''name'')]],
      pd_price = extractText e [[ClassContains (js ''price''), ClassContains (js ''cost''),
                   ByClass (js ''price'')]],
      pd_image = extractAttribute e (js ''img'') (js ''src''),
      pd_url = extractAttribute e (js ''a'') (js ''href''),
      pd_description = extractText e [[ClassContains (js ''desc''),
                   ClassContains (js ''details''), ByTag (js ''p'')]],
      pd_rating = extractText e [[ClassContains (js ''rating''), ClassContains (js ''star''),
                   ByClass (js ''rating'')]],
      pd_element = e\<rparr>"

definition extractProducts ::
  "(jsstring \<Rightarrow> js_error + element list) \<Rightarrow> 'a config \<Rightarrow> product_data list" where
  "extractProducts qsa cfg =
     (let sels = (case selectors cfg of Some given \<Rightarrow> given | None \<Rightarrow> productPatterns);
          allElements =
            concat (map (\<lambda>sel. case qsa sel of Inl e \<Rightarrow> [] | Inr elements \<Rightarrow> elements) sels)
      in map extractProductData (filter isLikelyProduct (spread_set allElements)))"

subsection \<open>scrape\<close>

text \<open>
  The object that \<open>scrape\<close> returns also carries the page address, the time of day and the
  elapsed time; they come from the browser and no branch depends on them, so the result here
  keeps \<open>data\<close> and \<open>metadata.elementCount\<close>. For the mode \<open>auto\<close> the data is the object
  that \<open>autoDetect\<close> returns, which has no \<open>length\<close>, so \<open>results?.length || 0\<close> is \<open>0\<close>.
\<close>

datatype scrape_data =
    NoData
  | Detected "table_data detection option"
  | Products "product_data list"

datatype scrape_result =
    Scraped scrape_data nat
  | ScrapeError jsstring

definition scrape ::
  "(jsstring \<Rightarrow> js_error + element list) \<Rightarrow> element \<Rightarrow> 'a config \<Rightarrow> scrape_result" where
  "scrape qsa doc cfg =
     (if mode cfg = js ''auto'' then
        (case autoDetect doc of
           Inl e \<Rightarrow> ScrapeError (error_message e)
         | Inr best \<Rightarrow> Scraped (Detected best) 0)
      else if mode cfg = js ''table'' then
        ScrapeError (error_message (undefined_method ''extractTables''))
      else if mode cfg = js ''list'' then
        ScrapeError (error_message (undefined_method ''extractLists''))
      else if mode cfg = js ''products'' then
        Scraped (Products (extractProducts qsa cfg)) (length (extractProducts qsa cfg))
      else if mode cfg = js ''custom'' then
        ScrapeError (error_message (undefined_method ''extractWithSelectors''))
      else Scraped NoData 0)"

section \<open>ScrapingEngine\<close>

subsection \<open>processInline\<close>

text \<open>
  The data is an array (\<open>JArray\<close>) of values of type \<open>'a\<close>, compared as \<open>Set\<close> compares
  them, or some other value (\<open>JOther\<close>). An argument of a processor is a function from
  elements to truth values, or a value that is not callable, given by its property key.

  What the language's own objects do is a parameter, the \<open>runtime\<close>: \<open>number_at a k\<close> is
  the number that \<open>a[k]\<close> converts to in the comparator of \<open>sort\<close> (\<open>None\<close> for NaN, and
  \<open>k = None\<close> when no key was passed); \<open>own_on_other\<close> is the outcome of a processor's body
  on a value that is not an array; \<open>object_prototype_call n v as\<close> is the outcome of calling
  the function that \<open>Object.prototype\<close> holds under the name \<open>n\<close>, with the table as
  \<open>this\<close> and \<open>v\<close> and the arguments \<open>as\<close>.

  The table \<open>processors\<close> is an object literal, so \<open>processors[name]\<close> finds the three
  functions of the literal and, for any other name, what \<open>Object.prototype\<close> holds under
  it: eleven functions and the accessor \<open>__proto__\<close>, whose value is \<open>Object.prototype\<close>
  itself (an object, truthy, not callable).
\<close>

datatype ('a, 'o) jsvalue = JArray "'a list" | JOther 'o

datatype 'a jsarg = AKey jsstring | APredicate "'a \<Rightarrow> bool"

record ('a, 'o) runtime =
  number_at :: "'a \<Rightarrow> 'a jsarg option \<Rightarrow> real option"
  own_on_other :: "jsstring \<Rightarrow> 'o \<Rightarrow> 'a jsarg list \<Rightarrow> js_error + ('a, 'o) jsvalue"
  object_prototype_call ::
    "jsstring \<Rightarrow> ('a, 'o) jsvalue \<Rightarrow> 'a jsarg list \<Rightarrow> js_error + ('a, 'o) jsvalue"

datatype member = OwnFunction | InheritedFunction | InheritedObject | Absent

definition own_processors :: "jsstring list" where
  "own_processors = [js ''deduplicate'', js ''sort'', js ''filter'']"

definition object_prototype_functions :: "jsstring list" where
  "object_prototype_functions =
     [js ''constructor'', js ''__defineGetter__'', js ''__defineSetter__'',
      js ''hasOwnProperty'', js ''__lookupGetter__'', js ''__lookupSetter__'',
      js ''isPrototypeOf'', js ''propertyIsEnumerable'', js ''toString'', js ''valueOf'',
      js ''toLocaleString'']"

definition processors_member :: "jsstring \<Rightarrow> member" where
  \<comment> \<open>\<open>processors[processor.name]\<close>\<close>
  "processors_member n =
     (if n \<in> set own_processors then OwnFunction
      else if n \<in> set object_prototype_functions then InheritedFunction
      else if n = js ''__proto__'' then InheritedObject
      else Absent)"

definition sort_comparator ::
  "('a, 'o) runtime \<Rightarrow> 'a jsarg option \<Rightarrow> 'a \<Rightarrow> 'a \<Rightarrow> real" where
  \<comment> \<open>\<open>(a, b) => a[key] - b[key]\<close>, a NaN read as 0 by \<open>sort\<close>\<close>
  "sort_comparator rt k a b =
     (case (number_at rt a k, number_at rt b k) of
        (Some x, Some y) \<Rightarrow> x - y
      | _ \<Rightarrow> 0)"

definition run_own ::
  "('a, 'o) runtime \<Rightarrow> jsstring \<Rightarrow> ('a, 'o) jsvalue \<Rightarrow> 'a jsarg list
     \<Rightarrow> js_error + ('a, 'o) jsvalue" where
  "run_own rt n result as =
     (case result of
        JOther v \<Rightarrow> own_on_other rt n v as
      | JArray arr \<Rightarrow>
          if n = js ''deduplicate'' then Inr (JArray (spread_set arr))
          else if n = js ''sort'' then
            Inr (JArray (array_sort (sort_comparator rt (case as of [] \<Rightarrow> None | k # _ \<Rightarrow> Some k))
                           arr))
          else (case as of
                  APredicate predicate # _ \<Rightarrow> Inr (JArray (filter predicate arr))
                | _ \<Rightarrow> Inl (TypeError (js ''predicate is not a function''))))"

definition apply_processor ::
  "('a, 'o) runtime \<Rightarrow> ('a, 'o) jsvalue \<Rightarrow> 'a jsarg processor
     \<Rightarrow> js_error + ('a, 'o) jsvalue" where
  \<comment> \<open>the body of the \<open>forEach\<close>; the spread \<open>...processor.args\<close> is evaluated before the call\<close>
  "apply_processor rt result p =
     (case processors_member (name p) of
        Absent \<Rightarrow> Inr result
      | m \<Rightarrow>
          (case args p of
             None \<Rightarrow> Inl (TypeError (js ''processor.args is not iterable''))
           | Some as \<Rightarrow>
               (case m of
                  InheritedObject \<Rightarrow>
                    Inl (TypeError (js ''processors[processor.name] is not a function''))
                | InheritedFunction \<Rightarrow> object_prototype_call rt (name p) result as
                | _ \<Rightarrow> run_own rt (name p) result as)))"

fun apply_processors ::
  "('a, 'o) runtime \<Rightarrow> ('a, 'o) jsvalue \<Rightarrow> 'a jsarg processor list
     \<Rightarrow> js_error + ('a, 'o) jsvalue" where
  "apply_processors rt result [] = Inr result"
| "apply_processors rt result (p # ps) =
     (case apply_processor rt result p of
        Inl e \<Rightarrow> Inl e
      | Inr result' \<Rightarrow> apply_processors rt result' ps)"

definition processInline ::
  "('a, 'o) runtime \<Rightarrow> ('a, 'o) jsvalue \<Rightarrow> 'a jsarg config \<Rightarrow> js_error + ('a, 'o) jsvalue" where
  "processInline rt data cfg =
     (case processors cfg of
        None \<Rightarrow> Inr data
      | Some ps \<Rightarrow> apply_processors rt data ps)"

subsection \<open>The cache and the worker pool\<close>

text \<open>
  One call of \<open>extract\<close> meets its surroundings four times: \<open>Date.now()\<close> at the cache check
  and again when the result is stored, the answer of the content script to
  \<open>chrome.tabs.sendMessage\<close> (\<open>Inl\<close> for \<open>chrome.runtime.lastError\<close>), and what the worker
  does with the posted job: it posts a result, it raises an error event, or it does neither and
  the promise stays pending. The \<open>environment\<close> holds these. The call returns how its
  promise settled, the engine afterwards, and the messages it sent, in order.
  \<open>JSON.stringify\<close> is a parameter.
\<close>

record 'v cache_entry =
  entry_data :: 'v
  timestamp :: int

record 'v engine =
  cache :: "jsstring \<Rightarrow> 'v cache_entry option"
  workerPool :: "bool list"

datatype 'v settled = Resolved 'v | Rejected js_error | Pending

datatype 'v worker_reply = Posted 'v | Crashed js_error | Silent

datatype effect = SendMessage int | PostMessage nat | Inline

record 'v environment =
  now_at_check :: int
  now_at_store :: int
  content_response :: "js_error + 'v"
  worker_answer :: "'v worker_reply"

fun first_free :: "bool list \<Rightarrow> nat option" where
  \<comment> \<open>\<open>this.workerPool.find(w => !w.busy)\<close>, as the index of the worker found\<close>
  "first_free [] = None"
| "first_free (busy # ws) =
     (if \<not> busy then Some 0 else map_option Suc (first_free ws))"

definition processInWorker ::
  "('a, 'o) runtime \<Rightarrow> ('a, 'o) jsvalue environment \<Rightarrow> bool list \<Rightarrow> ('a, 'o) jsvalue
     \<Rightarrow> 'a jsarg config \<Rightarrow> ('a, 'o) jsvalue settled \<times> bool list \<times> effect list" where
  "processInWorker rt env pool data cfg =
     (case first_free pool of
        None \<Rightarrow>
          (case processInline rt data cfg of
             Inl e \<Rightarrow> (Rejected e, pool, [Inline])
           | Inr v \<Rightarrow> (Resolved v, pool, [Inline]))
      | Some i \<Rightarrow>
          (case worker_answer env of
             Posted v \<Rightarrow> (Resolved v, (pool[i := True])[i := False], [PostMessage i])
           | Crashed e \<Rightarrow> (Rejected e, (pool[i := True])[i := False], [PostMessage i])
           | Silent \<Rightarrow> (Pending, pool[i := True], [PostMessage i])))"

definition cacheKey :: "('c \<Rightarrow> jsstring) \<Rightarrow> int \<Rightarrow> 'c \<Rightarrow> jsstring" where
  "cacheKey stringify tabId cfg = int_toString tabId @ js '':'' @ stringify cfg"

definition cached_fresh :: "'v engine \<Rightarrow> jsstring \<Rightarrow> int \<Rightarrow> 'v option" where
  \<comment> \<open>the two nested tests at the head of \<open>extract\<close>\<close>
  "cached_fresh s k now =
     (case cache s k of
        None \<Rightarrow> None
      | Some cached \<Rightarrow>
          if now - timestamp cached < 30000 then Some (entry_data cached) else None)"

definition engine_extract ::
  "('a, 'o) runtime \<Rightarrow> ('a jsarg config \<Rightarrow> jsstring) \<Rightarrow> ('a, 'o) jsvalue environment
     \<Rightarrow> ('a, 'o) jsvalue engine \<Rightarrow> int \<Rightarrow> 'a jsarg config
     \<Rightarrow> ('a, 'o) jsvalue settled \<times> ('a, 'o) jsvalue engine \<times> effect list" where
  \<comment> \<open>\<open>ScrapingEngine.extract\<close>\<close>
  "engine_extract rt stringify env s tabId cfg =
     (let k = cacheKey stringify tabId cfg in
      case cached_fresh s k (now_at_check env) of
        Some v \<Rightarrow> (Resolved v, s, [])
      | None \<Rightarrow>
          (case content_response env of
             Inl e \<Rightarrow> (Rejected e, s, [SendMessage tabId])
           | Inr data \<Rightarrow>
               (case processInWorker rt env (workerPool s) data cfg of
                  (Resolved processed, pool, sent) \<Rightarrow>
                    (Resolved processed,
                     s\<lparr>cache := (cache s)(k \<mapsto> \<lparr>entry_data = processed,
                                                  timestamp = now_at_store env\<rparr>),
                       workerPool := pool\<rparr>,
                     SendMessage tabId # sent)
                | (Rejected e, pool, sent) \<Rightarrow>
                    (Rejected e, s\<lparr>workerPool := pool\<rparr>, SendMessage tabId # sent)
                | (Pending, pool, sent) \<Rightarrow>
                    (Pending, s\<lparr>workerPool := pool\<rparr>, SendMessage tabId # sent))))"

section \<open>Concrete inputs\<close>

text \<open>
  Small documents and environments on which the theorems below are instantiated.
\<close>

definition demo_qsa :: "jsstring \<Rightarrow> js_error + nat list" where
  "demo_qsa sel =
     (if sel = js ''#main'' then Inr [1]
      else if sel = js ''.card'' then Inr [1, 2, 3]
      else if sel = js ''div['' then Inl (SyntaxError (js ''not a valid selector''))
      else Inr [])"

definition demo_selectors :: "jsstring list" where
  "demo_selectors = [js ''.card'', js ''div['', js ''#main'']"

definition blank :: dom_props where
  \<comment> \<open>a block-level \<open>div\<close> without content; the documents below set what differs\<close>
  "blank =
     \<lparr>node_id = 0, tagName = js ''DIV'', elem_id = [], className = [], attributes = [],
      textContent = [], innerHTML = [], rect_width = 0, rect_height = 0, offsetWidth = 0,
      offsetHeight = 0, display = js ''block''\<rparr>"

definition leaf :: "nat \<Rightarrow> string \<Rightarrow> string \<Rightarrow> element" where
  \<comment> \<open>an element without children: its identity, its tag name and its text\<close>
  "leaf i t s =
     Element (blank\<lparr>node_id := i, tagName := js t, textContent := js s, innerHTML := js s\<rparr>) []"

definition demo_row :: "nat \<Rightarrow> element" where
  "demo_row i =
     Element (blank\<lparr>node_id := 10 * i, tagName := js ''TR'', textContent := js ''Widget9.994'',
                    innerHTML := js ''<td>Widget</td><td>9.99</td><td>4</td>'',
                    display := js ''table-row'', offsetHeight := 20\<rparr>)
       [leaf (10 * i + 1) ''TD'' ''Widget'', leaf (10 * i + 2) ''TD'' ''9.99'',
        leaf (10 * i + 3) ''TD'' ''4'']"

definition demo_table :: element where
  \<comment> \<open>a table whose body has five rows of three cells\<close>
  "demo_table =
     Element (blank\<lparr>node_id := 1, tagName := js ''TABLE'', className := js ''data-table'',
                    textContent := concat (replicate 5 (js ''Widget9.994'')),
                    innerHTML := js ''<tbody>''
                      @ concat (replicate 5
                          (js ''<tr><td>Widget</td><td>9.99</td><td>4</td></tr>''))
                      @ js ''</tbody>'',
                    rect_width := 400, rect_height := 200, display := js ''table''\<rparr>)
       [Element (blank\<lparr>node_id := 2, tagName := js ''TBODY'',
                       display := js ''table-row-group''\<rparr>)
          [demo_row 11, demo_row 12, demo_row 13, demo_row 14, demo_row 15]]"

definition demo_div_row :: "nat \<Rightarrow> element" where
  "demo_div_row i =
     Element (blank\<lparr>node_id := 10 * i, textContent := js ''alphabetagamma'',
                    innerHTML := js ''<span>alpha</span><span>beta</span><span>gamma</span>'',
                    offsetHeight := 20\<rparr>)
       [leaf (10 * i + 1) ''SPAN'' ''alpha'', leaf (10 * i + 2) ''SPAN'' ''beta'',
        leaf (10 * i + 3) ''SPAN'' ''gamma'']"

definition demo_div_table :: element where
  \<comment> \<open>a block of five rows of three spans\<close>
  "demo_div_table =
     Element (blank\<lparr>node_id := 3,
                    textContent := concat (replicate 5 (js ''alphabetagamma'')),
                    innerHTML := concat (replicate 5
                      (js ''<div><span>alpha</span><span>beta</span><span>gamma</span></div>'')),
                    rect_width := 300, rect_height := 120\<rparr>)
       [demo_div_row 31, demo_div_row 32, demo_div_row 33, demo_div_row 34, demo_div_row 35]"

definition demo_list_item :: "nat \<Rightarrow> element" where
  "demo_list_item i =
     Element (blank\<lparr>node_id := i, tagName := js ''LI'', className := js ''entry'',
                    textContent := js ''item'', innerHTML := js ''item'',
                    display := js ''list-item'', offsetHeight := 18\<rparr>) []"

definition demo_list :: element where
  \<comment> \<open>a list of five items of one class\<close>
  "demo_list =
     Element (blank\<lparr>node_id := 4, tagName := js ''UL'',
                    textContent := concat (replicate 5 (js ''item'')),
                    innerHTML := concat (replicate 5 (js ''<li class=\"entry\">item</li>'')),
                    rect_width := 200, rect_height := 90\<rparr>)
       [demo_list_item 41, demo_list_item 42, demo_list_item 43, demo_list_item 44,
        demo_list_item 45]"

definition demo_product_item :: "nat \<Rightarrow> element" where
  \<comment> \<open>an item with an image, a heading and a price with a dollar sign\<close>
  "demo_product_item i =
     Element (blank\<lparr>node_id := 10 * i, className := js ''tile'',
                    textContent := js ''Widget$9.99'', rect_width := 120, rect_height := 160,
                    offsetWidth := 120, offsetHeight := 160\<rparr>)
       [leaf (10 * i + 1) ''IMG'' [], leaf (10 * i + 2) ''H3'' ''Widget'',
        leaf (10 * i + 3) ''SPAN'' ''$9.99'']"

definition demo_product_grid :: element where
  \<comment> \<open>a flex container of six such items\<close>
  "demo_product_grid =
     Element (blank\<lparr>node_id := 5, className := js ''product-grid'', display := js ''flex'',
                    rect_width := 800, rect_height := 400\<rparr>)
       [demo_product_item 51, demo_product_item 52, demo_product_item 53,
        demo_product_item 54, demo_product_item 55, demo_product_item 56]"

definition demo_link_item :: "nat \<Rightarrow> element" where
  \<comment> \<open>an item with a heading and a button, and neither a price nor an image\<close>
  "demo_link_item i =
     Element (blank\<lparr>node_id := 10 * i, textContent := js ''NewsRead more'',
                    rect_width := 240, rect_height := 120, offsetWidth := 240,
                    offsetHeight := 120\<rparr>)
       [leaf (10 * i + 1) ''H2'' ''News'', leaf (10 * i + 2) ''BUTTON'' ''Read more'']"

definition demo_link_grid :: element where
  \<comment> \<open>a flex container of six items without any price or image\<close>
  "demo_link_grid =
     Element (blank\<lparr>node_id := 6, display := js ''flex'', rect_width := 800,
                    rect_height := 400\<rparr>)
       [demo_link_item 61, demo_link_item 62, demo_link_item 63,
        demo_link_item 64, demo_link_item 65, demo_link_item 66]"

definition empty_div :: element where
  "empty_div = leaf 9 ''DIV'' []"

definition demo_tables :: "element list" where
  "demo_tables = [empty_div, demo_div_table, demo_table]"

definition demo_lists :: "element list" where
  "demo_lists = [empty_div, demo_list]"

definition demo_containers :: "element list" where
  "demo_containers = [empty_div, demo_product_grid]"

definition demo_mixed_list :: element where
  \<comment> \<open>two items without children whose classes differ\<close>
  "demo_mixed_list =
     Element (blank\<lparr>node_id := 7, tagName := js ''UL''\<rparr>)
       [Element (blank\<lparr>node_id := 71, tagName := js ''LI'', className := js ''first''\<rparr>) [],
        Element (blank\<lparr>node_id := 72, tagName := js ''LI'', className := js ''second''\<rparr>) []]"

definition demo_long_table :: element where
  \<comment> \<open>a table of eleven rows of three cells\<close>
  "demo_long_table =
     Element (blank\<lparr>node_id := 8, tagName := js ''TABLE'', display := js ''table''\<rparr>)
       [demo_row 81, demo_row 82, demo_row 83, demo_row 84, demo_row 85, demo_row 86,
        demo_row 87, demo_row 88, demo_row 89, demo_row 90, demo_row 91]"

definition demo_runtime :: "(nat, jsstring) runtime" where
  \<comment> \<open>elements are numbers; a value that is not an array is given by its string form\<close>
  "demo_runtime =
     \<lparr>number_at = (\<lambda>a k. Some (real a)),
      own_on_other = (\<lambda>n v as. Inl (TypeError (js ''not iterable''))),
      object_prototype_call = (\<lambda>n v as. Inr (JOther (js ''[object Object]'')))\<rparr>"

definition demo_stringify :: "nat jsarg config \<Rightarrow> jsstring" where
  "demo_stringify cfg = js ''{mode:'' @ mode cfg @ js ''}''"

definition demo_config :: "nat jsarg config" where
  "demo_config =
     \<lparr>mode = js ''table'', selectors = None,
      processors = Some [\<lparr>name = js ''deduplicate'', args = Some []\<rparr>]\<rparr>"

definition demo_key :: jsstring where
  "demo_key = js ''7:{mode:table}''"

definition demo_engine :: "(nat, jsstring) jsvalue engine" where
  \<comment> \<open>one entry stored at time 1000; two workers are busy, the third is free\<close>
  "demo_engine =
     \<lparr>cache = [demo_key \<mapsto> \<lparr>entry_data = JArray [4, 2], timestamp = 1000\<rparr>],
      workerPool = [True, True, False]\<rparr>"

definition demo_environment ::
  "int \<Rightarrow> (nat, jsstring) jsvalue worker_reply \<Rightarrow> (nat, jsstring) jsvalue environment" where
  "demo_environment now answer =
     \<lparr>now_at_check = now, now_at_store = now + 40,
      content_response = Inr (JArray [3, 5, 3]), worker_answer = answer\<rparr>"
section \<open>Properties of the sort\<close>


lemma set_insert_by: "set (insert_by cmp x ys) = insert x (set ys)"
  by (induction ys) auto

lemma mset_insert_by: "mset (insert_by cmp x ys) = add_mset x (mset ys)"
  by (induction ys) auto

lemma mset_array_sort: "mset (array_sort cmp xs) = mset xs"
  unfolding array_sort_def by (induction xs) (auto simp: mset_insert_by)

lemma set_array_sort: "set (array_sort cmp xs) = set xs"
  using mset_array_sort [of cmp xs] by (metis set_mset_mset)

lemma length_array_sort: "length (array_sort cmp xs) = length xs"
  using mset_array_sort [of cmp xs] by (metis size_mset)

lemma sorted_insert_by_key:
  assumes "\<And>a b. (cmp a b \<le> 0) = (key b \<le> (key a :: real))"
    and "sorted_wrt (\<lambda>a b. key b \<le> key a) ys"
  shows "sorted_wrt (\<lambda>a b. key b \<le> key a) (insert_by cmp x ys)"
  using assms(2)
proof (induction ys)
  case Nil
  then show ?case by simp
next
  case (Cons y ys)
  show ?case
  proof (cases "cmp x y \<le> 0")
    case True
    then have "key y \<le> key x" using assms(1) by simp
    with Cons.prems True show ?thesis by (auto intro: order_trans)
  next
    case False
    then have "key x \<le> key y" using assms(1) [of x y] by linarith
    with Cons False show ?thesis by (auto simp: set_insert_by)
  qed
qed

lemma sorted_array_sort_key:
  assumes "\<And>a b. (cmp a b \<le> 0) = (key b \<le> (key a :: real))"
  shows "sorted_wrt (\<lambda>a b. key b \<le> key a) (array_sort cmp xs)"
  unfolding array_sort_def
  by (induction xs) (auto intro: sorted_insert_by_key [OF assms])

lemma by_score_desc_le: "(by_score_desc a b \<le> 0) = (sel_score b \<le> sel_score a)"
  by (simp add: by_score_desc_def)

lemma sorted_wrt_take: "sorted_wrt P xs \<Longrightarrow> sorted_wrt P (take n xs)"
  by (metis append_take_drop_id sorted_wrt_append)

section \<open>Selector ranking\<close>

lemma top_five:
  fixes entries :: "ranked_selector list"
  defines "out \<equiv> take 5 (array_sort by_score_desc (filter (\<lambda>s. sel_score s > 0) entries))"
  shows "length out \<le> 5"
    and "sorted_wrt (\<lambda>a b. sel_score b \<le> sel_score a) out"
    and "\<And>r. r \<in> set out \<Longrightarrow> 0 < sel_score r \<and> r \<in> set entries"
    and "\<exists>rest. mset (out @ rest) = mset (filter (\<lambda>s. sel_score s > 0) entries)
            \<and> (\<forall>a\<in>set out. \<forall>b\<in>set rest. sel_score b \<le> sel_score a)"
proof -
  let ?pos = "filter (\<lambda>s. sel_score s > 0) entries"
  let ?sorted = "array_sort by_score_desc ?pos"
  have srt: "sorted_wrt (\<lambda>a b. sel_score b \<le> sel_score a) ?sorted"
    by (rule sorted_array_sort_key [OF by_score_desc_le])
  show "length out \<le> 5" by (simp add: out_def)
  show "sorted_wrt (\<lambda>a b. sel_score b \<le> sel_score a) out"
    unfolding out_def by (rule sorted_wrt_take [OF srt])
  show "0 < sel_score r \<and> r \<in> set entries" if "r \<in> set out" for r
  proof -
    from that have "r \<in> set ?sorted" unfolding out_def by (rule in_set_takeD)
    then show ?thesis by (simp add: set_array_sort)
  qed
  have split: "out @ drop 5 ?sorted = ?sorted" by (simp add: out_def)
  have "sorted_wrt (\<lambda>a b. sel_score b \<le> sel_score a) (out @ drop 5 ?sorted)"
    using srt by (simp only: split)
  then have "\<forall>a\<in>set out. \<forall>b\<in>set (drop 5 ?sorted). sel_score b \<le> sel_score a"
    by (simp add: sorted_wrt_append)
  moreover have "mset (out @ drop 5 ?sorted) = mset ?pos"
    by (simp only: split mset_array_sort)
  ultimately show "\<exists>rest. mset (out @ rest) = mset ?pos
            \<and> (\<forall>a\<in>set out. \<forall>b\<in>set rest. sel_score b \<le> sel_score a)"
    by blast
qed





lemma top_five_entries:
  fixes one :: "jsstring \<Rightarrow> ranked_selector" and sels :: "jsstring list"
  assumes ok: "\<And>s. 0 < sel_score (one s) \<Longrightarrow> sel_error (one s) = None"
  defines "out \<equiv> take 5 (array_sort by_score_desc (filter (\<lambda>s. sel_score s > 0) (map one sels)))"
  shows "length out \<le> 5
       \<and> sorted_wrt (\<lambda>a b. sel_score b \<le> sel_score a) out
       \<and> (\<forall>r\<in>set out. 0 < sel_score r \<and> sel_error r = None)
       \<and> (\<exists>rest. mset (out @ rest) = mset (filter (\<lambda>r. 0 < sel_score r) (map one sels))
                 \<and> (\<forall>a\<in>set out. \<forall>b\<in>set rest. sel_score b \<le> sel_score a))"
proof -
  note t = top_five [where entries = "map one sels", folded out_def]
  have "0 < sel_score r \<and> sel_error r = None" if "r \<in> set out" for r
  proof -
    from t(3) [OF that] obtain s where "r = one s" "0 < sel_score r" by auto
    then show ?thesis using ok by simp
  qed
  with t(1,2,4) show ?thesis by blast
qed

lemma failed_score: "sel_score (failed_selector sel e) = - 1"
  by (simp add: failed_selector_def)

lemma table_rank_one_ok: "0 < sel_score (table_rank_one qsa target s) \<Longrightarrow> sel_error (table_rank_one qsa target s) = None"
  by (auto simp: table_rank_one_def failed_selector_def split: sum.splits)

lemma list_rank_one_ok: "0 < sel_score (list_rank_one qsa target s) \<Longrightarrow> sel_error (list_rank_one qsa target s) = None"
  by (auto simp: list_rank_one_def failed_selector_def split: sum.splits)

lemma product_rank_one_ok: "0 < sel_score (product_rank_one qsa target s) \<Longrightarrow> sel_error (product_rank_one qsa target s) = None"
  by (auto simp: product_rank_one_def failed_selector_def split: sum.splits)


lemma table_ranking:
  "length (rankSelectors qsa sels target) \<le> 5
      \<and> sorted_wrt (\<lambda>a b. sel_score b \<le> sel_score a) (rankSelectors qsa sels target)
      \<and> (\<forall>r\<in>set (rankSelectors qsa sels target). 0 < sel_score r \<and> sel_error r = None)
      \<and> (\<exists>rest. mset (rankSelectors qsa sels target @ rest)
                   = mset (filter (\<lambda>r. 0 < sel_score r) (map (table_rank_one qsa target) sels))
                 \<and> (\<forall>a\<in>set (rankSelectors qsa sels target). \<forall>b\<in>set rest.
                        sel_score b \<le> sel_score a))"
  unfolding rankSelectors_def by (rule top_five_entries [OF table_rank_one_ok])

lemma list_ranking:
  "length (list_rankSelectors qsa sels target) \<le> 5
      \<and> sorted_wrt (\<lambda>a b. sel_score b \<le> sel_score a) (list_rankSelectors qsa sels target)
      \<and> (\<forall>r\<in>set (list_rankSelectors qsa sels target). 0 < sel_score r \<and> sel_error r = None)
      \<and> (\<exists>rest. mset (list_rankSelectors qsa sels target @ rest)
                   = mset (filter (\<lambda>r. 0 < sel_score r) (map (list_rank_one qsa target) sels))
                 \<and> (\<forall>a\<in>set (list_rankSelectors qsa sels target). \<forall>b\<in>set rest.
                        sel_score b \<le> sel_score a))"
  unfolding list_rankSelectors_def by (rule top_five_entries [OF list_rank_one_ok])

lemma product_ranking:
  "length (rankProductSelectors qsa sels target) \<le> 5
      \<and> sorted_wrt (\<lambda>a b. sel_score b \<le> sel_score a) (rankProductSelectors qsa sels target)
      \<and> (\<forall>r\<in>set (rankProductSelectors qsa sels target). 0 < sel_score r \<and> sel_error r = None)
      \<and> (\<exists>rest. mset (rankProductSelectors qsa sels target @ rest)
                   = mset (filter (\<lambda>r. 0 < sel_score r) (map (product_rank_one qsa target) sels))
                 \<and> (\<forall>a\<in>set (rankProductSelectors qsa sels target). \<forall>b\<in>set rest.
                        sel_score b \<le> sel_score a))"
  unfolding rankProductSelectors_def by (rule top_five_entries [OF product_rank_one_ok])

lemma failing_selector_scores:
  "qsa sel = Inl e \<longrightarrow>
        sel_score (table_rank_one qsa target sel) = - 1
      \<and> sel_score (list_rank_one qsa target sel) = - 1
      \<and> sel_score (product_rank_one qsa target sel) = - 1"
  by (simp add: table_rank_one_def list_rank_one_def product_rank_one_def failed_score)

text \<open>
  Claim C6. For every target node and every pool of selectors, each of the three rankers
  (\<open>TableDetector.rankSelectors\<close>, \<open>ListDetector.rankSelectors\<close>,
  \<open>ProductDetector.rankProductSelectors\<close>) gives a selector that \<open>querySelectorAll\<close>
  rejects the score \<open>-1\<close>; its output has at most five entries, in descending order of
  score, each with a score above \<open>0\<close> and none of them a failed one; and the output is the
  head of the positively scored entries: together with some rest it is a permutation of them,
  and nothing in the rest scores higher than an entry of the output.
\<close>

theorem selector_ranking:
  fixes qsa :: "jsstring \<Rightarrow> js_error + 'n list"
  shows
  "(qsa sel = Inl e \<longrightarrow>
        sel_score (table_rank_one qsa target sel) = - 1
      \<and> sel_score (list_rank_one qsa target sel) = - 1
      \<and> sel_score (product_rank_one qsa target sel) = - 1)
   \<and> (length (rankSelectors qsa sels target) \<le> 5
      \<and> sorted_wrt (\<lambda>a b. sel_score b \<le> sel_score a) (rankSelectors qsa sels target)
      \<and> (\<forall>r\<in>set (rankSelectors qsa sels target). 0 < sel_score r \<and> sel_error r = None)
      \<and> (\<exists>rest. mset (rankSelectors qsa sels target @ rest)
                   = mset (filter (\<lambda>r. 0 < sel_score r) (map (table_rank_one qsa target) sels))
                 \<and> (\<forall>a\<in>set (rankSelectors qsa sels target). \<forall>b\<in>set rest.
                        sel_score b \<le> sel_score a)))
   \<and> (length (list_rankSelectors qsa sels target) \<le> 5
      \<and> sorted_wrt (\<lambda>a b. sel_score b \<le> sel_score a) (list_rankSelectors qsa sels target)
      \<and> (\<forall>r\<in>set (list_rankSelectors qsa sels target). 0 < sel_score r \<and> sel_error r = None)
      \<and> (\<exists>rest. mset (list_rankSelectors qsa sels target @ rest)
                   = mset (filter (\<lambda>r. 0 < sel_score r) (map (list_rank_one qsa target) sels))
                 \<and> (\<forall>a\<in>set (list_rankSelectors qsa sels target). \<forall>b\<in>set rest.
                        sel_score b \<le> sel_score a)))
   \<and> (length (rankProductSelectors qsa sels target) \<le> 5
      \<and> sorted_wrt (\<lambda>a b. sel_score b \<le> sel_score a) (rankProductSelectors qsa sels target)
      \<and> (\<forall>r\<in>set (rankProductSelectors qsa sels target). 0 < sel_score r \<and> sel_error r = None)
      \<and> (\<exists>rest. mset (rankProductSelectors qsa sels target @ rest)
                   = mset (filter (\<lambda>r. 0 < sel_score r) (map (product_rank_one qsa target) sels))
                 \<and> (\<forall>a\<in>set (rankProductSelectors qsa sels target). \<forall>b\<in>set rest.
                        sel_score b \<le> sel_score a)))"
  by (rule conjI [OF failing_selector_scores
        conjI [OF table_ranking conjI [OF list_ranking product_ranking]]])



lemma demo_table_entries:
  "map (table_rank_one demo_qsa 1) demo_selectors =
     [\<lparr>selector = js ''.card'', sel_score = 3.85, matches = Some 3, isExact = Some True,
        complexity = Some 5, sel_error = None\<rparr>,
      failed_selector (js ''div['') (SyntaxError (js ''not a valid selector'')),
      \<lparr>selector = js ''#main'', sel_score = 4.75, matches = Some 1, isExact = Some True,
        complexity = Some 5, sel_error = None\<rparr>]"
  by (simp add: demo_selectors_def table_rank_one_def demo_qsa_def js_def
      table_selector_score_def first_is_def classCount_def)

lemma demo_table_ranking:
  "map selector (rankSelectors demo_qsa demo_selectors 1) = [js ''#main'', js ''.card'']"
  unfolding rankSelectors_def demo_table_entries
  by (simp add: failed_selector_def array_sort_def by_score_desc_def)

theorem selector_ranking_witness:
  "demo_qsa (js ''div['') = Inl (SyntaxError (js ''not a valid selector''))
   \<and> sel_score (table_rank_one demo_qsa 1 (js ''div['')) = - 1
   \<and> sel_score (product_rank_one demo_qsa 1 (js ''div['')) = - 1
   \<and> map selector (rankSelectors demo_qsa demo_selectors 1) = [js ''#main'', js ''.card'']
   \<and> length (rankSelectors demo_qsa demo_selectors 1) \<le> 5
   \<and> sorted_wrt (\<lambda>a b. sel_score b \<le> sel_score a) (rankSelectors demo_qsa demo_selectors 1)"
proof -
  have failing: "demo_qsa (js ''div['') = Inl (SyntaxError (js ''not a valid selector''))"
    by (simp add: demo_qsa_def js_def)
  note ranked = selector_ranking [of demo_qsa "js ''div[''" "SyntaxError (js ''not a valid selector'')"
      1 demo_selectors]
  from ranked failing have "sel_score (table_rank_one demo_qsa 1 (js ''div['')) = - 1"
    and "sel_score (product_rank_one demo_qsa 1 (js ''div['')) = - 1" by blast+
  moreover from ranked have "length (rankSelectors demo_qsa demo_selectors 1) \<le> 5"
    and "sorted_wrt (\<lambda>a b. sel_score b \<le> sel_score a) (rankSelectors demo_qsa demo_selectors 1)"
    by blast+
  ultimately show ?thesis using failing demo_table_ranking by blast
qed

section \<open>Bounds of the sub-scores\<close>

lemma candidates_desc_le: "(candidates_desc a b \<le> 0) = (score b \<le> score a)"
  by (simp add: candidates_desc_def)

lemma scoring_pass:
  fixes one :: "element \<Rightarrow> 'm candidate" and th :: real and ts :: "element list"
  defines "out \<equiv> array_sort candidates_desc (filter (\<lambda>c. score c \<ge> th) (map one ts))"
  shows "(\<forall>c\<in>set out. th \<le> score c)
       \<and> sorted_wrt (\<lambda>a b. score b \<le> score a) out
       \<and> mset out = mset (filter (\<lambda>c. th \<le> score c) (map one ts))"
  unfolding out_def
  by (simp add: set_array_sort mset_array_sort sorted_array_sort_key [OF candidates_desc_le])

lemma fraction_bounds:
  fixes P :: "nat \<Rightarrow> bool"
  assumes "2 \<le> n"
  shows "0 \<le> real (length (filter P [1 ..< min k n])) / real (min k (n - 1))"
    and "real (length (filter P [1 ..< min k n])) / real (min k (n - 1)) \<le> 1"
proof -
  have "length (filter P [1 ..< min k n]) \<le> length [1 ..< min k n]"
    by (rule length_filter_le)
  also have "\<dots> = min k n - 1" by simp
  also have "\<dots> \<le> min k (n - 1)" using assms by arith
  finally have le: "length (filter P [1 ..< min k n]) \<le> min k (n - 1)" .
  show "0 \<le> real (length (filter P [1 ..< min k n])) / real (min k (n - 1))" by simp
  show "real (length (filter P [1 ..< min k n])) / real (min k (n - 1)) \<le> 1"
  proof (cases "min k (n - 1) = 0")
    case True
    then show ?thesis by simp
  next
    case False
    then show ?thesis using le by (simp add: divide_le_eq_1)
  qed
qed

lemma getDivStructureScore_bounds: "0 \<le> getDivStructureScore d \<and> getDivStructureScore d \<le> 1"
  unfolding getDivStructureScore_def Let_def
  using fraction_bounds [of "length (children d)"
      "\<lambda>i. length (children (children d ! i)) = length (children (children d ! 0))" 5]
  by (simp add: not_less)

lemma getStructureScore_bounds: "0 \<le> getStructureScore t \<and> getStructureScore t \<le> 1"
proof (cases "is_tag (js ''table'') t")
  case False
  then show ?thesis using getDivStructureScore_bounds [of t] by (simp add: getStructureScore_def)
next
  case True
  then show ?thesis
    unfolding getStructureScore_def Let_def
    using fraction_bounds [of "length (rows t)"
        "\<lambda>i. length (cells (rows t ! i)) = length (cells (rows t ! 0))" 10]
    by (simp add: not_less)
qed

lemma getConsistencyScore_bounds: "0 \<le> getConsistencyScore l \<and> getConsistencyScore l \<le> 1"
  unfolding getConsistencyScore_def Let_def
  using fraction_bounds [of "length (children l)"
      "\<lambda>i. tagName (props (children l ! i)) = tagName (props (children l ! 0))
            \<and> className (props (children l ! i)) = className (props (children l ! 0))" 10]
  by (simp add: not_less)

lemma sum_list_bonus_nonneg:
  assumes "\<And>x. 0 \<le> (f x :: real)"
  shows "0 \<le> sum_list (map f xs)"
  by (induction xs) (auto simp: assms)

lemma word_bonus_nonneg: "0 \<le> w \<Longrightarrow> 0 \<le> word_bonus w s ws"
  unfolding word_bonus_def by (rule sum_list_bonus_nonneg) simp

lemma table_attr_bonus_nonneg: "0 \<le> table_attr_bonus t a"
  by (simp add: table_attr_bonus_def split: option.splits)

lemma list_attr_bonus_nonneg: "0 \<le> list_attr_bonus t a"
  by (simp add: list_attr_bonus_def split: option.splits)

lemma product_attr_bonus_nonneg: "0 \<le> product_attr_bonus t a"
  by (simp add: product_attr_bonus_def split: option.splits)

lemma min_cap: "0 \<le> (x::real) \<Longrightarrow> 0 \<le> min 0.25 x \<and> min 0.25 x \<le> 0.25"
  by simp

lemma table_semantic_bounds: "0 \<le> table_getSemanticScore t \<and> table_getSemanticScore t \<le> 0.25"
  unfolding table_getSemanticScore_def
  by (rule min_cap)
     (intro add_nonneg_nonneg sum_list_bonus_nonneg word_bonus_nonneg table_attr_bonus_nonneg,
      simp_all)

lemma list_semantic_bounds: "0 \<le> list_getSemanticScore t \<and> list_getSemanticScore t \<le> 0.25"
  unfolding list_getSemanticScore_def
  by (rule min_cap)
     (intro add_nonneg_nonneg sum_list_bonus_nonneg word_bonus_nonneg list_attr_bonus_nonneg,
      simp_all)

lemma product_semantic_bounds:
  "0 \<le> product_getSemanticScore t \<and> product_getSemanticScore t \<le> 0.25"
  unfolding product_getSemanticScore_def
  by (rule min_cap)
     (intro add_nonneg_nonneg sum_list_bonus_nonneg word_bonus_nonneg product_attr_bonus_nonneg,
      simp_all)

lemma productRatio_bounds: "0 \<le> productRatio c \<and> productRatio c \<le> 1"
proof -
  let ?n = "length (children c)"
  have "countProductChildren c \<le> length [0 ..< min 10 ?n]"
    unfolding countProductChildren_def by (rule length_filter_le)
  then have "countProductChildren c \<le> max 1 ?n" by simp arith
  then show ?thesis
    unfolding productRatio_def by (simp add: divide_le_eq_1)
qed

lemma patternAverage_bounds:
  "0 \<le> patternAverage (analyzePattern cs) \<and> patternAverage (analyzePattern cs) \<le> 1"
  by (simp add: patternAverage_def analyzePattern_def Let_def)

lemma table_raw_score_bounds: "0 \<le> table_raw_score t \<and> table_raw_score t \<le> 1.25"
  unfolding table_raw_score_def
  using getStructureScore_bounds [of t] table_semantic_bounds [of t]
  by (simp add: add_nonneg_nonneg) 

lemma list_raw_score_bounds: "0 \<le> list_raw_score t \<and> list_raw_score t \<le> 1.15"
  unfolding list_raw_score_def
  using getConsistencyScore_bounds [of t] list_semantic_bounds [of t]
  by (simp add: add_nonneg_nonneg) 

lemma product_raw_score_bounds: "0 \<le> product_raw_score t \<and> product_raw_score t \<le> 1.05"
  unfolding product_raw_score_def
  using productRatio_bounds [of t] patternAverage_bounds [of "children t"]
    product_semantic_bounds [of t]
  by (simp add: add_nonneg_nonneg) 

section \<open>Evaluation of the concrete documents\<close>

lemma replicate_five: "replicate 5 x = [x, x, x, x, x]"
  by (simp add: eval_nat_numeral)

lemmas dom_simps = is_tag_def blank_def js_def toLowerCase_def rows_def section_rows_def
  cells_def leaf_def empty_div_def getTextDensity_def trim_def isWhiteSpace_def getAttribute_def
  word_bonus_def replicate_five

lemma demo_table_raw: "table_raw_score demo_table = 1.1"
  by (simp add: table_raw_score_def getRowCount_def getColumnCount_def getStructureScore_def
      table_getSemanticScore_def table_attr_bonus_def dom_simps demo_table_def demo_row_def)

lemma demo_div_table_raw: "table_raw_score demo_div_table = 0.7"
  by (simp add: table_raw_score_def getRowCount_def getColumnCount_def getStructureScore_def
      getDivStructureScore_def isBlockLike_def table_getSemanticScore_def table_attr_bonus_def
      dom_simps demo_div_table_def demo_div_row_def)

lemma leaf_table_raw: "table_raw_score empty_div = 0"
  by (simp add: table_raw_score_def getRowCount_def getColumnCount_def getStructureScore_def
      getDivStructureScore_def isBlockLike_def table_getSemanticScore_def table_attr_bonus_def
      dom_simps)

lemma demo_list_raw: "list_raw_score demo_list = 0.8"
  by (simp add: list_raw_score_def isNativeList_def getItemCount_def getConsistencyScore_def
      list_getSemanticScore_def list_attr_bonus_def dom_simps demo_list_def demo_list_item_def)

lemma leaf_list_raw: "list_raw_score empty_div = 0"
  by (simp add: list_raw_score_def isNativeList_def getItemCount_def getConsistencyScore_def
      list_getSemanticScore_def list_attr_bonus_def dom_simps)

lemmas price_simps = containsPrice_def PRICE_PATTERNS_def symbol_price_def Lit_def Plus_def
  Opt_def cents_def digit_or_comma_def isDigit_def currency_code_def LetterCI_def

lemmas query_simps = querySelector_def hasImage_def hasButton_def hasTitle_def
  hasProductSize_def

lemma product_item_signals:
  "hasPrice (demo_product_item i)" "hasImage (demo_product_item i)"
  "\<not> hasButton (demo_product_item i)" "hasTitle (demo_product_item i)"
  "hasProductSize (demo_product_item i)"
  by (simp_all add: hasPrice_def price_simps query_simps demo_product_item_def dom_simps)

lemma link_item_signals:
  "\<not> hasPrice (demo_link_item i)" "\<not> hasImage (demo_link_item i)"
  "hasButton (demo_link_item i)" "hasTitle (demo_link_item i)"
  "hasProductSize (demo_link_item i)"
  by (simp_all add: hasPrice_def price_simps query_simps demo_link_item_def dom_simps)

lemma product_item_score: "productLikeScore (demo_product_item i) = 7"
  by (simp add: productLikeScore_def product_item_signals)

lemma link_item_score: "productLikeScore (demo_link_item i) = 3"
  by (simp add: productLikeScore_def link_item_signals)

lemma product_grid_parts:
  "children demo_product_grid =
     [demo_product_item 51, demo_product_item 52, demo_product_item 53,
      demo_product_item 54, demo_product_item 55, demo_product_item 56]"
  "display (props demo_product_grid) = js ''flex''"
  "className (props demo_product_grid) = js ''product-grid''"
  "elem_id (props demo_product_grid) = []"
  "attributes (props demo_product_grid) = []"
  "rect_width (props demo_product_grid) = 800"
  "rect_height (props demo_product_grid) = 400"
  by (simp_all add: demo_product_grid_def blank_def)

lemma link_grid_parts:
  "children demo_link_grid =
     [demo_link_item 61, demo_link_item 62, demo_link_item 63,
      demo_link_item 64, demo_link_item 65, demo_link_item 66]"
  "display (props demo_link_grid) = js ''flex''"
  by (simp_all add: demo_link_grid_def blank_def)

lemma includes_flex:
  "str_includes (js ''flex'') (js ''flex'')" "\<not> str_includes (js ''flex'') (js ''grid'')"
  by (simp_all add: js_def)

lemma product_item_props:
  "tagName (props (demo_product_item i)) = js ''DIV''"
  "className (props (demo_product_item i)) = js ''tile''"
  "offsetWidth (props (demo_product_item i)) = 120"
  "offsetHeight (props (demo_product_item i)) = 160"
  by (simp_all add: demo_product_item_def blank_def)

lemma product_grid_pattern:
  "analyzePattern (children demo_product_grid) =
     \<lparr>consistentStructure = 1, consistentClasses = 1, consistentSize = 1\<rparr>"
  by (simp add: analyzePattern_def product_grid_parts product_item_props js_def)

lemma product_grid_semantic: "product_getSemanticScore demo_product_grid = 0.1"
  by (simp add: product_getSemanticScore_def product_attr_bonus_def getAttribute_def
      word_bonus_def product_grid_parts js_def toLowerCase_def)

lemma product_grid_ratio: "productRatio demo_product_grid = 1"
  by (simp add: productRatio_def countProductChildren_def product_grid_parts product_item_score)

lemma demo_product_grid_raw: "product_raw_score demo_product_grid = 0.9"
  unfolding product_raw_score_def product_grid_ratio product_grid_semantic product_grid_pattern
  by (simp add: patternAverage_def product_grid_parts)

lemma leaf_product_raw: "product_raw_score empty_div = 1 / 6"
  by (simp add: product_raw_score_def productRatio_def countProductChildren_def
      patternAverage_def analyzePattern_def product_getSemanticScore_def product_attr_bonus_def
      dom_simps)

lemmas pass_simps = scoreTable_def scoreList_def scoreContainer_def
  table_CONFIDENCE_THRESHOLD_def list_CONFIDENCE_THRESHOLD_def product_CONFIDENCE_THRESHOLD_def
  array_sort_def candidates_desc_def

lemma demo_tables_scored:
  "map score (scoreTables demo_tables) = [1, 0.7]"
  "map confidence (scoreTables demo_tables) = [1.1, 0.7]"
  "map element (scoreTables demo_tables) = [demo_table, demo_div_table]"
  by (simp_all add: scoreTables_def demo_tables_def pass_simps demo_table_raw
      demo_div_table_raw leaf_table_raw)

lemma demo_lists_scored: "map score (scoreLists demo_lists) = [0.8]"
  by (simp add: scoreLists_def demo_lists_def pass_simps demo_list_raw leaf_list_raw)

lemma demo_containers_scored: "map score (scoreContainers demo_containers) = [0.9]"
  by (simp add: scoreContainers_def demo_containers_def pass_simps demo_product_grid_raw
      leaf_product_raw)

lemma link_item_props:
  "tagName (props (demo_link_item i)) = js ''DIV''"
  "className (props (demo_link_item i)) = []"
  "offsetWidth (props (demo_link_item i)) = 240"
  "offsetHeight (props (demo_link_item i)) = 120"
  by (simp_all add: demo_link_item_def blank_def)

lemma link_grid_props:
  "className (props demo_link_grid) = []"
  "elem_id (props demo_link_grid) = []"
  "attributes (props demo_link_grid) = []"
  "rect_width (props demo_link_grid) = 800"
  "rect_height (props demo_link_grid) = 400"
  by (simp_all add: demo_link_grid_def blank_def)

lemma link_grid_pattern:
  "analyzePattern (children demo_link_grid) =
     \<lparr>consistentStructure = 1, consistentClasses = 1, consistentSize = 1\<rparr>"
  by (simp add: analyzePattern_def link_grid_parts link_item_props js_def)

lemma link_grid_semantic: "product_getSemanticScore demo_link_grid = 0"
  by (simp add: product_getSemanticScore_def product_attr_bonus_def getAttribute_def
      word_bonus_def link_grid_props js_def toLowerCase_def)

lemma link_grid_ratio: "productRatio demo_link_grid = 1"
  by (simp add: productRatio_def countProductChildren_def link_grid_parts link_item_score)

lemma demo_link_grid_raw: "product_raw_score demo_link_grid = 0.8"
  unfolding product_raw_score_def link_grid_ratio link_grid_semantic link_grid_pattern
  by (simp add: patternAverage_def link_grid_parts link_grid_props)

lemma link_grid_scored: "map score (scoreContainers [demo_link_grid]) = [0.8]"
  by (simp add: scoreContainers_def pass_simps demo_link_grid_raw)

lemma not_container:
  "\<not> isGridProductContainer (demo_product_item i)"
  "\<not> isGridProductContainer (demo_link_item i)"
  by (simp_all add: isGridProductContainer_def demo_product_item_def demo_link_item_def
      blank_def js_def)

lemma product_grid_is_div: "is_tag (js ''div'') demo_product_grid"
  by (simp add: is_tag_def demo_product_grid_def blank_def js_def toLowerCase_def)

lemma product_grid_found: "findGridProducts demo_product_grid = [demo_product_grid]"
proof -
  have "isGridProductContainer demo_product_grid"
    by (simp add: isGridProductContainer_def product_grid_parts includes_flex
        product_item_score)
  moreover have "filter isGridProductContainer (descendants demo_product_grid) = []"
    by (simp add: demo_product_grid_def demo_product_item_def leaf_def empty_div_def
        isGridProductContainer_def blank_def js_def)
  ultimately show ?thesis
    by (auto simp: findGridProducts_def all_elements_def product_grid_is_div
        filter_empty_conv)
qed

section \<open>The scoring passes\<close>

lemma tables_pass:
  "(\<forall>c\<in>set (scoreTables ts). 0.6 \<le> score c)
   \<and> sorted_wrt (\<lambda>a b. score b \<le> score a) (scoreTables ts)
   \<and> mset (scoreTables ts) = mset (filter (\<lambda>c. 0.6 \<le> score c) (map scoreTable ts))"
  unfolding scoreTables_def table_CONFIDENCE_THRESHOLD_def by (rule scoring_pass)

lemma lists_pass:
  "(\<forall>c\<in>set (scoreLists ts). 0.5 \<le> score c)
   \<and> sorted_wrt (\<lambda>a b. score b \<le> score a) (scoreLists ts)
   \<and> mset (scoreLists ts) = mset (filter (\<lambda>c. 0.5 \<le> score c) (map scoreList ts))"
  unfolding scoreLists_def list_CONFIDENCE_THRESHOLD_def by (rule scoring_pass)

lemma containers_pass:
  "(\<forall>c\<in>set (scoreContainers ts). 0.6 \<le> score c)
   \<and> sorted_wrt (\<lambda>a b. score b \<le> score a) (scoreContainers ts)
   \<and> mset (scoreContainers ts) = mset (filter (\<lambda>c. 0.6 \<le> score c) (map scoreContainer ts))"
  unfolding scoreContainers_def product_CONFIDENCE_THRESHOLD_def by (rule scoring_pass)

text \<open>
  Claim C1. Whatever nodes a scoring pass is given, every candidate it returns has a score of
  at least the threshold of its kind (0.6 for \<open>scoreTables\<close> and \<open>scoreContainers\<close>, 0.5 for
  \<open>scoreLists\<close>), the returned list is in descending order of score, and it holds exactly
  the candidates that reach the threshold.
\<close>

theorem scoring_pass_threshold_and_order:
  "((\<forall>c\<in>set (scoreTables tables). 0.6 \<le> score c)
    \<and> sorted_wrt (\<lambda>a b. score b \<le> score a) (scoreTables tables)
    \<and> mset (scoreTables tables)
        = mset (filter (\<lambda>c. 0.6 \<le> score c) (map scoreTable tables)))
   \<and> ((\<forall>c\<in>set (scoreLists ls). 0.5 \<le> score c)
    \<and> sorted_wrt (\<lambda>a b. score b \<le> score a) (scoreLists ls)
    \<and> mset (scoreLists ls) = mset (filter (\<lambda>c. 0.5 \<le> score c) (map scoreList ls)))
   \<and> ((\<forall>c\<in>set (scoreContainers containers). 0.6 \<le> score c)
    \<and> sorted_wrt (\<lambda>a b. score b \<le> score a) (scoreContainers containers)
    \<and> mset (scoreContainers containers)
        = mset (filter (\<lambda>c. 0.6 \<le> score c) (map scoreContainer containers)))"
  by (rule conjI [OF tables_pass conjI [OF lists_pass containers_pass]])

theorem scoring_pass_witness:
  "map score (scoreTables demo_tables) = [1, 0.7]
   \<and> map score (scoreLists demo_lists) = [0.8]
   \<and> map score (scoreContainers demo_containers) = [0.9]
   \<and> list_all (\<lambda>c. 0.6 \<le> score c) (scoreTables demo_tables)
   \<and> sorted_wrt (\<lambda>a b. score b \<le> score a) (scoreTables demo_tables)
   \<and> list_all (\<lambda>c. 0.5 \<le> score c) (scoreLists demo_lists)
   \<and> list_all (\<lambda>c. 0.6 \<le> score c) (scoreContainers demo_containers)"
proof -
  note pass = scoring_pass_threshold_and_order [of demo_tables demo_lists demo_containers]
  from pass have "list_all (\<lambda>c. 0.6 \<le> score c) (scoreTables demo_tables)"
    and "sorted_wrt (\<lambda>a b. score b \<le> score a) (scoreTables demo_tables)"
    and "list_all (\<lambda>c. 0.5 \<le> score c) (scoreLists demo_lists)"
    and "list_all (\<lambda>c. 0.6 \<le> score c) (scoreContainers demo_containers)"
    unfolding list_all_iff by blast+
  with demo_tables_scored(1) demo_lists_scored demo_containers_scored show ?thesis
    by (intro conjI)
qed

lemma in_pass:
  assumes "c \<in> set (array_sort cmp (filter P (map one ts)))"
  shows "\<exists>t. c = one t"
  using assms by (auto simp: set_array_sort)

text \<open>
  Claim C9, as the code has it. The field \<open>score\<close> of every candidate is the field
  \<open>confidence\<close> cut off at 1 and lies between 0 and 1. The field \<open>confidence\<close> is the sum
  before the cut: it is not negative, and it is bounded by the sum of the largest contributions,
  1.25 for a table, 1.15 for a list and 1.05 for a product container, not by 1.
\<close>

theorem candidate_score_bounds:
  "(\<forall>c\<in>set (scoreTables tables).
       0 \<le> score c \<and> score c \<le> 1 \<and> score c = min 1 (confidence c)
       \<and> 0 \<le> confidence c \<and> confidence c \<le> 1.25)
   \<and> (\<forall>c\<in>set (scoreLists ls).
       0 \<le> score c \<and> score c \<le> 1 \<and> score c = min 1 (confidence c)
       \<and> 0 \<le> confidence c \<and> confidence c \<le> 1.15)
   \<and> (\<forall>c\<in>set (scoreContainers containers).
       0 \<le> score c \<and> score c \<le> 1 \<and> score c = min 1 (confidence c)
       \<and> 0 \<le> confidence c \<and> confidence c \<le> 1.05)"
proof (intro conjI ballI)
  fix c assume "c \<in> set (scoreTables tables)"
  then obtain t where "c = scoreTable t" unfolding scoreTables_def by (blast dest: in_pass)
  then show "0 \<le> score c" "score c \<le> 1" "score c = min 1 (confidence c)"
    "0 \<le> confidence c" "confidence c \<le> 1.25"
    using table_raw_score_bounds [of t] by (simp_all add: scoreTable_def)
next
  fix c assume "c \<in> set (scoreLists ls)"
  then obtain t where "c = scoreList t" unfolding scoreLists_def by (blast dest: in_pass)
  then show "0 \<le> score c" "score c \<le> 1" "score c = min 1 (confidence c)"
    "0 \<le> confidence c" "confidence c \<le> 1.15"
    using list_raw_score_bounds [of t] by (simp_all add: scoreList_def)
next
  fix c assume "c \<in> set (scoreContainers containers)"
  then obtain t where "c = scoreContainer t"
    unfolding scoreContainers_def by (blast dest: in_pass)
  then show "0 \<le> score c" "score c \<le> 1" "score c = min 1 (confidence c)"
    "0 \<le> confidence c" "confidence c \<le> 1.05"
    using product_raw_score_bounds [of t] by (simp_all add: scoreContainer_def)
qed

theorem candidate_score_bounds_witness:
  "map score (scoreTables demo_tables) = [1, 0.7]
   \<and> map confidence (scoreTables demo_tables) = [1.1, 0.7]
   \<and> list_all (\<lambda>c. 0 \<le> score c \<and> score c \<le> 1 \<and> score c = min 1 (confidence c)
                  \<and> 0 \<le> confidence c \<and> confidence c \<le> 1.25) (scoreTables demo_tables)"
proof -
  from candidate_score_bounds [of demo_tables demo_lists demo_containers]
  have "list_all (\<lambda>c. 0 \<le> score c \<and> score c \<le> 1 \<and> score c = min 1 (confidence c)
                  \<and> 0 \<le> confidence c \<and> confidence c \<le> 1.25) (scoreTables demo_tables)"
    unfolding list_all_iff by blast
  with demo_tables_scored(1,2) show ?thesis by (intro conjI)
qed

theorem confidence_above_one:
  "map element (scoreTables [demo_table]) = [demo_table]
   \<and> map confidence (scoreTables [demo_table]) = [1.1]
   \<and> \<not> (1.1 :: real) \<le> 1"
  by (simp add: scoreTables_def pass_simps demo_table_raw)

section \<open>The product rubric\<close>

lemma matches_prefix_regex_test: "matches_prefix r s \<Longrightarrow> regex_test r s"
  by (cases s) simp_all

lemma regex_test_append: "regex_test r s \<Longrightarrow> regex_test r (pre @ s)"
  by (induction pre) simp_all

lemma dollar_amount_matches:
  assumes "isDigit d"
  shows "matches_prefix (symbol_price 36) (36 # d # post)"
  using assms
  by (cases post)
     (simp_all add: symbol_price_def Lit_def Plus_def cents_def Opt_def digit_or_comma_def)

lemma dollar_amount_is_price:
  assumes "isDigit d"
  shows "containsPrice (pre @ 36 # d # post)"
proof -
  have "regex_test (symbol_price 36) (pre @ 36 # d # post)"
    by (intro regex_test_append matches_prefix_regex_test dollar_amount_matches assms)
  then show ?thesis by (simp add: containsPrice_def PRICE_PATTERNS_def)
qed

text \<open>
  Claim C7, as the code has it. \<open>isProductLike\<close> adds 3 for a price pattern in the text, 2 for
  an image among the descendants, 1 for a button, 1 for a title-like heading and 1 for a
  bounding box wider than 100 and higher than 50, and accepts the element exactly when the sum
  is at least 3. A price alone suffices: an element whose text holds a dollar sign followed by
  a digit is accepted, so an item with an image, such a price and a heading is. An element with
  neither a price nor an image is accepted exactly when it has a button, a title-like heading and
  that size, all three; otherwise it is rejected.
\<close>

theorem product_rubric:
  "(isProductLike (Some e) \<longleftrightarrow>
      3 \<le> (if containsPrice (textContent (props e)) then 3 else 0)
          + (if querySelector e [ByTag (js ''img'')] \<noteq> None then 2 else 0)
          + (if hasButton e then 1 else 0)
          + (if hasTitle e then 1 else 0)
          + (if rect_width (props e) > 100 \<and> rect_height (props e) > 50 then 1 else (0::nat)))
   \<and> (isDigit d \<and> textContent (props e) = pre @ 36 # d # post \<longrightarrow> isProductLike (Some e))
   \<and> (\<not> containsPrice (textContent (props e)) \<and> querySelector e [ByTag (js ''img'')] = None \<longrightarrow>
        (isProductLike (Some e) \<longleftrightarrow>
           hasButton e \<and> hasTitle e \<and> rect_width (props e) > 100 \<and> rect_height (props e) > 50))"
proof (intro conjI impI)
  show "isProductLike (Some e) \<longleftrightarrow>
      3 \<le> (if containsPrice (textContent (props e)) then 3 else 0)
          + (if querySelector e [ByTag (js ''img'')] \<noteq> None then 2 else 0)
          + (if hasButton e then 1 else 0)
          + (if hasTitle e then 1 else 0)
          + (if rect_width (props e) > 100 \<and> rect_height (props e) > 50 then 1 else (0::nat))"
    by (simp add: productLikeScore_def hasPrice_def hasImage_def hasProductSize_def)
next
  assume "isDigit d \<and> textContent (props e) = pre @ 36 # d # post"
  then have "hasPrice e" by (simp add: hasPrice_def dollar_amount_is_price)
  then show "isProductLike (Some e)" by (simp add: productLikeScore_def)
next
  assume "\<not> containsPrice (textContent (props e)) \<and> querySelector e [ByTag (js ''img'')] = None"
  then have "\<not> hasPrice e" "\<not> hasImage e" by (simp_all add: hasPrice_def hasImage_def)
  then show "isProductLike (Some e) \<longleftrightarrow>
           hasButton e \<and> hasTitle e \<and> rect_width (props e) > 100 \<and> rect_height (props e) > 50"
    by (auto simp: productLikeScore_def hasProductSize_def split: if_splits)
qed

lemma product_item_text:
  "textContent (props (demo_product_item 51)) = js ''Widget'' @ 36 # 57 # js ''.99''"
  by (simp add: demo_product_item_def blank_def js_def)

lemma leaf_signals:
  "\<not> containsPrice (textContent (props empty_div))"
  "querySelector empty_div [ByTag (js ''img'')] = None"
  "\<not> hasButton empty_div"
  by (simp_all add: containsPrice_def query_simps leaf_def empty_div_def blank_def js_def)

theorem product_rubric_witness:
  "isDigit 57
   \<and> textContent (props (demo_product_item 51)) = js ''Widget'' @ 36 # 57 # js ''.99''
   \<and> hasImage (demo_product_item 51) \<and> hasTitle (demo_product_item 51)
   \<and> isProductLike (Some (demo_product_item 51))
   \<and> \<not> containsPrice (textContent (props empty_div))
   \<and> querySelector empty_div [ByTag (js ''img'')] = None
   \<and> \<not> isProductLike (Some empty_div)
   \<and> isGridProductContainer demo_product_grid
   \<and> findGridProducts demo_product_grid = [demo_product_grid]"
proof -
  have digit: "isDigit 57" by (simp add: isDigit_def)
  from product_rubric [of "demo_product_item 51" 57 "js ''Widget''" "js ''.99''"]
    digit product_item_text
  have accepted: "isProductLike (Some (demo_product_item 51))" by blast
  from product_rubric [of "empty_div" 57 "[]" "[]"] leaf_signals
  have rejected: "\<not> isProductLike (Some empty_div)" by blast
  have "isGridProductContainer demo_product_grid"
    by (simp add: isGridProductContainer_def product_grid_parts includes_flex
        product_item_score)
  with digit product_item_text product_item_signals(2,4) accepted rejected leaf_signals(1,2)
    product_grid_found
  show ?thesis by (intro conjI)
qed

theorem no_price_no_image_accepted:
  "\<not> containsPrice (textContent (props (demo_link_item 61)))
   \<and> querySelector (demo_link_item 61) [ByTag (js ''img'')] = None
   \<and> isProductLike (Some (demo_link_item 61))
   \<and> length (children demo_link_grid) = 6
   \<and> list_all (\<lambda>item. \<not> hasPrice item \<and> \<not> hasImage item) (children demo_link_grid)
   \<and> isGridProductContainer demo_link_grid
   \<and> map score (scoreContainers [demo_link_grid]) = [0.8]"
proof -
  have "isGridProductContainer demo_link_grid"
    by (simp add: isGridProductContainer_def link_grid_parts includes_flex link_item_score)
  moreover have "isProductLike (Some (demo_link_item 61))"
    by (simp add: link_item_score)
  moreover have "list_all (\<lambda>item. \<not> hasPrice item \<and> \<not> hasImage item) (children demo_link_grid)"
    by (simp add: link_grid_parts link_item_signals)
  moreover have "length (children demo_link_grid) = 6" by (simp add: link_grid_parts)
  ultimately show ?thesis
    using link_item_signals(1,2) [of 61] link_grid_scored
    by (simp add: hasPrice_def hasImage_def)
qed

section \<open>Structural consistency\<close>

lemma siblings_by_index:
  assumes "m \<le> length xs"
  shows "length (filter (\<lambda>i. P (xs ! i)) [1 ..< m]) = length (filter P (take (m - 1) (tl xs)))"
proof -
  have "map ((!) xs) [1 ..< m] = take (m - 1) (tl xs)"
    using assms by (intro nth_equalityI) (auto simp: nth_tl)
  then have "filter P (take (m - 1) (tl xs)) = map ((!) xs) (filter (P \<circ> (!) xs) [1 ..< m])"
    by (metis filter_map)
  then have "length (filter P (take (m - 1) (tl xs))) = length (filter (P \<circ> (!) xs) [1 ..< m])"
    by (metis length_map)
  then show ?thesis by (simp add: comp_def)
qed

lemma sibling_fraction:
  assumes "2 \<le> length xs" and "length xs \<le> k"
  shows "real (length (filter (\<lambda>i. P (xs ! i)) [1 ..< min k (length xs)]))
           / real (min k (length xs - 1))
         = real (length (filter P (tl xs))) / real (length (tl xs))"
proof -
  have "min k (length xs) = length xs" "min k (length xs - 1) = length xs - 1"
    using assms by simp_all
  then show ?thesis
    using siblings_by_index [of "length xs" xs P] by simp
qed

lemma all_match_fraction:
  assumes "2 \<le> length xs" and "\<forall>x\<in>set xs. P x"
  shows "real (length (filter P (tl xs))) / real (length (tl xs)) = 1"
proof -
  have "\<forall>x\<in>set (tl xs). P x" using assms(2) by (metis list.set_sel(2) tl_Nil)
  then have "filter P (tl xs) = tl xs" by (simp add: filter_id_conv)
  then show ?thesis using assms(1) by simp
qed

lemma table_structure:
  assumes "is_tag (js ''table'') t" and "2 \<le> length (rows t)" and "length (rows t) \<le> 10"
  shows "getStructureScore t =
           real (length (filter (\<lambda>r. length (cells r) = length (cells (hd (rows t))))
                           (tl (rows t))))
           / real (length (tl (rows t)))"
proof -
  have "rows t \<noteq> []" using assms(2) by auto
  then have "rows t ! 0 = hd (rows t)" by (simp add: hd_conv_nth)
  then show ?thesis
    using assms sibling_fraction [of "rows t" 10 "\<lambda>r. length (cells r) = length (cells (hd (rows t)))"]
    by (simp add: getStructureScore_def Let_def)
qed

lemma div_structure:
  assumes "\<not> is_tag (js ''table'') t" and "2 \<le> length (children t)"
    and "length (children t) \<le> 5"
  shows "getStructureScore t =
           real (length (filter (\<lambda>r. length (children r) = length (children (hd (children t))))
                           (tl (children t))))
           / real (length (tl (children t)))"
proof -
  have "children t \<noteq> []" using assms(2) by auto
  then have "children t ! 0 = hd (children t)" by (simp add: hd_conv_nth)
  then show ?thesis
    using assms sibling_fraction [of "children t" 5
        "\<lambda>r. length (children r) = length (children (hd (children t)))"]
    by (simp add: getStructureScore_def getDivStructureScore_def Let_def)
qed

lemma list_consistency:
  assumes "2 \<le> length (children l)" and "length (children l) \<le> 10"
  shows "getConsistencyScore l =
           real (length (filter (\<lambda>c. tagName (props c) = tagName (props (hd (children l)))
                                    \<and> className (props c) = className (props (hd (children l))))
                           (tl (children l))))
           / real (length (tl (children l)))"
proof -
  have "children l \<noteq> []" using assms(1) by auto
  then have "children l ! 0 = hd (children l)" by (simp add: hd_conv_nth)
  then show ?thesis
    using assms sibling_fraction [of "children l" 10
        "\<lambda>c. tagName (props c) = tagName (props (hd (children l)))
              \<and> className (props c) = className (props (hd (children l)))"]
    by (simp add: getConsistencyScore_def Let_def)
qed

text \<open>
  Claim C8, as the code has it. For a native table with between 2 and 10 rows,
  \<open>getStructureScore\<close> is the fraction of the rows after the first whose number of cells is
  that of the first row. For any other container \<open>getStructureScore\<close> looks at the first five
  children only: with between 2 and 5 children it is the fraction of the children after the
  first that have as many children as the first. \<open>ListDetector.getConsistencyScore\<close> does not
  compare child counts: for a list with between 2 and 10 items it is the fraction of the items
  after the first whose tag name and class name are those of the first. In each case the value
  is 1 when all rows or items agree with the first.
\<close>

theorem structural_consistency:
  "(is_tag (js ''table'') t \<and> 2 \<le> length (rows t) \<and> length (rows t) \<le> 10 \<longrightarrow>
      getStructureScore t =
        real (length (filter (\<lambda>r. length (cells r) = length (cells (hd (rows t))))
                        (tl (rows t))))
        / real (length (tl (rows t)))
      \<and> ((\<forall>r\<in>set (rows t). length (cells r) = length (cells (hd (rows t))))
           \<longrightarrow> getStructureScore t = 1))
   \<and> (\<not> is_tag (js ''table'') t \<and> 2 \<le> length (children t) \<and> length (children t) \<le> 5 \<longrightarrow>
      getStructureScore t =
        real (length (filter (\<lambda>r. length (children r) = length (children (hd (children t))))
                        (tl (children t))))
        / real (length (tl (children t)))
      \<and> ((\<forall>r\<in>set (children t). length (children r) = length (children (hd (children t))))
           \<longrightarrow> getStructureScore t = 1))
   \<and> (2 \<le> length (children l) \<and> length (children l) \<le> 10 \<longrightarrow>
      getConsistencyScore l =
        real (length (filter (\<lambda>c. tagName (props c) = tagName (props (hd (children l)))
                                 \<and> className (props c) = className (props (hd (children l))))
                        (tl (children l))))
        / real (length (tl (children l)))
      \<and> ((\<forall>c\<in>set (children l). tagName (props c) = tagName (props (hd (children l)))
                                 \<and> className (props c) = className (props (hd (children l))))
           \<longrightarrow> getConsistencyScore l = 1))"
proof (intro conjI impI; (elim conjE)?)
  assume "is_tag (js ''table'') t" "2 \<le> length (rows t)" "length (rows t) \<le> 10"
  then show "getStructureScore t =
        real (length (filter (\<lambda>r. length (cells r) = length (cells (hd (rows t))))
                        (tl (rows t))))
        / real (length (tl (rows t)))"
    by (rule table_structure)
next
  assume "is_tag (js ''table'') t" "2 \<le> length (rows t)" "length (rows t) \<le> 10"
    and "\<forall>r\<in>set (rows t). length (cells r) = length (cells (hd (rows t)))"
  then show "getStructureScore t = 1"
    using table_structure [of t]
      all_match_fraction [of "rows t" "\<lambda>r. length (cells r) = length (cells (hd (rows t)))"]
    by presburger
next
  assume "\<not> is_tag (js ''table'') t" "2 \<le> length (children t)" "length (children t) \<le> 5"
  then show "getStructureScore t =
        real (length (filter (\<lambda>r. length (children r) = length (children (hd (children t))))
                        (tl (children t))))
        / real (length (tl (children t)))"
    by (rule div_structure)
next
  assume "\<not> is_tag (js ''table'') t" "2 \<le> length (children t)" "length (children t) \<le> 5"
    and "\<forall>r\<in>set (children t). length (children r) = length (children (hd (children t)))"
  then show "getStructureScore t = 1"
    using div_structure [of t]
      all_match_fraction [of "children t"
        "\<lambda>r. length (children r) = length (children (hd (children t)))"]
    by presburger
next
  assume "2 \<le> length (children l)" "length (children l) \<le> 10"
  then show "getConsistencyScore l =
        real (length (filter (\<lambda>c. tagName (props c) = tagName (props (hd (children l)))
                                 \<and> className (props c) = className (props (hd (children l))))
                        (tl (children l))))
        / real (length (tl (children l)))"
    by (rule list_consistency)
next
  assume "2 \<le> length (children l)" "length (children l) \<le> 10"
    and "\<forall>c\<in>set (children l). tagName (props c) = tagName (props (hd (children l)))
                                 \<and> className (props c) = className (props (hd (children l)))"
  then show "getConsistencyScore l = 1"
    using list_consistency [of l]
      all_match_fraction [of "children l"
        "\<lambda>c. tagName (props c) = tagName (props (hd (children l)))
              \<and> className (props c) = className (props (hd (children l)))"]
    by presburger
qed

lemma demo_row_cells: "length (cells (demo_row i)) = 3"
  by (simp add: cells_def is_tag_def demo_row_def leaf_def empty_div_def blank_def js_def toLowerCase_def)

lemma demo_row_is_tr: "is_tag (js ''tr'') (demo_row i)"
  by (simp add: is_tag_def demo_row_def blank_def js_def toLowerCase_def)

lemma demo_row_not_section:
  "\<not> is_tag (js ''thead'') (demo_row i)" "\<not> is_tag (js ''tfoot'') (demo_row i)"
  by (simp_all add: is_tag_def demo_row_def blank_def js_def toLowerCase_def)

lemma demo_table_rows:
  "is_tag (js ''table'') demo_table"
  "rows demo_table = [demo_row 11, demo_row 12, demo_row 13, demo_row 14, demo_row 15]"
  by (simp_all add: rows_def section_rows_def demo_table_def demo_row_def is_tag_def blank_def
      js_def toLowerCase_def)

lemma demo_div_table_children:
  "\<not> is_tag (js ''table'') demo_div_table"
  "children demo_div_table =
     [demo_div_row 31, demo_div_row 32, demo_div_row 33, demo_div_row 34, demo_div_row 35]"
  "length (children (demo_div_row i)) = 3"
  by (simp_all add: demo_div_table_def demo_div_row_def is_tag_def blank_def js_def
      toLowerCase_def)

lemma demo_list_children:
  "children demo_list =
     [demo_list_item 41, demo_list_item 42, demo_list_item 43, demo_list_item 44,
      demo_list_item 45]"
  "tagName (props (demo_list_item i)) = js ''LI''"
  "className (props (demo_list_item i)) = js ''entry''"
  by (simp_all add: demo_list_def demo_list_item_def blank_def)

theorem structural_consistency_witness:
  "is_tag (js ''table'') demo_table \<and> length (rows demo_table) = 5
   \<and> getStructureScore demo_table = 1
   \<and> \<not> is_tag (js ''table'') demo_div_table \<and> length (children demo_div_table) = 5
   \<and> getStructureScore demo_div_table = 1
   \<and> length (children demo_list) = 5
   \<and> getConsistencyScore demo_list = 1"
proof -
  have t: "getStructureScore demo_table = 1"
    using structural_consistency [of demo_table demo_list]
    by (simp add: demo_table_rows demo_row_cells)
  have d: "getStructureScore demo_div_table = 1"
    using structural_consistency [of demo_div_table demo_list]
    by (simp add: demo_div_table_children)
  have l: "getConsistencyScore demo_list = 1"
    using structural_consistency [of demo_table demo_list]
    by (simp add: demo_list_children)
  show ?thesis
    using t d l by (simp add: demo_table_rows demo_div_table_children demo_list_children)
qed

theorem equal_child_counts_score_zero:
  "length (children demo_mixed_list) = 2
   \<and> map (\<lambda>item. length (children item)) (children demo_mixed_list) = [0, 0]
   \<and> getConsistencyScore demo_mixed_list = 0"
  by (simp add: getConsistencyScore_def demo_mixed_list_def blank_def js_def)

lemma demo_long_table_rows:
  "is_tag (js ''table'') demo_long_table"
  "rows demo_long_table =
     [demo_row 81, demo_row 82, demo_row 83, demo_row 84, demo_row 85, demo_row 86,
      demo_row 87, demo_row 88, demo_row 89, demo_row 90, demo_row 91]"
  by (simp_all add: rows_def demo_long_table_def demo_row_is_tr demo_row_not_section)
     (simp add: is_tag_def blank_def js_def toLowerCase_def)

lemma eleven_equal_rows_score:
  "length (rows demo_long_table) = 11
   \<and> list_all (\<lambda>r. length (cells r) = 3) (rows demo_long_table)
   \<and> getStructureScore demo_long_table = 0.9"
  by (simp add: getStructureScore_def demo_long_table_rows demo_row_cells)

section \<open>DOMScanner\<close>

lemma keep_best_cases:
  assumes "\<forall>b. best = Some b \<longrightarrow> det_data b \<noteq> None"
  shows "\<exists>r. keep_best best cur = Inr r
           \<and> (r = best \<or> r = cur)
           \<and> (\<forall>x. r = Some x \<longrightarrow> det_data x \<noteq> None)
           \<and> (r = None \<longleftrightarrow> best = None \<and> (\<forall>x. cur = Some x \<longrightarrow> det_data x = None))
           \<and> (\<forall>x d. r = Some x \<and> det_data x = Some d \<longrightarrow>
                 (\<forall>y dy. (best = Some y \<or> cur = Some y) \<and> det_data y = Some dy
                     \<longrightarrow> length dy \<le> length d))"
proof (cases cur)
  case None
  then show ?thesis using assms by auto
next
  case (Some c)
  show ?thesis
  proof (cases "det_data c")
    case None
    with Some show ?thesis using assms by auto
  next
    case cd: (Some d)
    show ?thesis
    proof (cases best)
      case None
      with Some cd show ?thesis by auto
    next
      case b: (Some b)
      with assms obtain bd where "det_data b = Some bd" by auto
      with Some cd b show ?thesis by auto
    qed
  qed
qed

lemma reduce_best_result:
  assumes "\<forall>b. best = Some b \<longrightarrow> det_data b \<noteq> None"
  shows "\<exists>r. reduce_best best rs = Inr r
           \<and> (r = best \<or> r \<in> set rs)
           \<and> (\<forall>x. r = Some x \<longrightarrow> det_data x \<noteq> None)
           \<and> (r = None \<longleftrightarrow> best = None \<and> (\<forall>x. Some x \<in> set rs \<longrightarrow> det_data x = None))
           \<and> (\<forall>x d. r = Some x \<and> det_data x = Some d \<longrightarrow>
                 (\<forall>y dy. (best = Some y \<or> Some y \<in> set rs) \<and> det_data y = Some dy
                     \<longrightarrow> length dy \<le> length d))"
  using assms
proof (induction rs arbitrary: best)
  case Nil
  then show ?case by auto
next
  case (Cons cur rs)
  from keep_best_cases [OF Cons.prems, of cur] obtain b where
    kb: "keep_best best cur = Inr b" and
    b1: "b = best \<or> b = cur" and
    b2: "\<forall>x. b = Some x \<longrightarrow> det_data x \<noteq> None" and
    b3: "b = None \<longleftrightarrow> best = None \<and> (\<forall>x. cur = Some x \<longrightarrow> det_data x = None)" and
    b4: "\<forall>x d. b = Some x \<and> det_data x = Some d \<longrightarrow>
           (\<forall>y dy. (best = Some y \<or> cur = Some y) \<and> det_data y = Some dy
               \<longrightarrow> length dy \<le> length d)"
    by blast
  from Cons.IH [OF b2] obtain r where
    rb: "reduce_best b rs = Inr r" and
    r1: "r = b \<or> r \<in> set rs" and
    r2: "\<forall>x. r = Some x \<longrightarrow> det_data x \<noteq> None" and
    r3: "r = None \<longleftrightarrow> b = None \<and> (\<forall>x. Some x \<in> set rs \<longrightarrow> det_data x = None)" and
    r4: "\<forall>x d. r = Some x \<and> det_data x = Some d \<longrightarrow>
           (\<forall>y dy. (b = Some y \<or> Some y \<in> set rs) \<and> det_data y = Some dy
               \<longrightarrow> length dy \<le> length d)"
    by blast
  have red: "reduce_best best (cur # rs) = Inr r" using kb rb by simp
  have m1: "r = best \<or> r \<in> set (cur # rs)" using b1 r1 by auto
  have m3: "r = None \<longleftrightarrow> best = None \<and> (\<forall>x. Some x \<in> set (cur # rs) \<longrightarrow> det_data x = None)"
    using b3 r3 by auto
  have m4: "length dy \<le> length d"
    if "r = Some x" "det_data x = Some d" "best = Some y \<or> Some y \<in> set (cur # rs)"
      "det_data y = Some dy" for x d y dy
  proof (cases "Some y \<in> set rs")
    case True
    with that r4 show ?thesis by blast
  next
    case False
    with that have y: "best = Some y \<or> cur = Some y" by auto
    then have "b \<noteq> None" using b3 that(4) by auto
    then obtain z where z: "b = Some z" by auto
    with b2 obtain dz where dz: "det_data z = Some dz" by auto
    from b4 z dz y that(4) have "length dy \<le> length dz" by blast
    moreover from r4 that(1,2) z dz have "length dz \<le> length d" by blast
    ultimately show ?thesis by simp
  qed
  from red m1 r2 m3 m4 show ?case by blast
qed

lemma caught_set: "Some x \<in> set (map caught outcomes) \<longleftrightarrow> Inr x \<in> set outcomes"
  by (induction outcomes) (auto simp: caught_def split: sum.splits)

lemma autoDetectWith_result:
  "\<exists>best. autoDetectWith outcomes = Inr best
      \<and> (best = None \<longleftrightarrow> (\<forall>r. Inr r \<in> set outcomes \<longrightarrow> det_data r = None))
      \<and> (\<forall>r. best = Some r \<longrightarrow>
            Inr r \<in> set outcomes
            \<and> (\<exists>d. det_data r = Some d
                  \<and> (\<forall>s ds. Inr s \<in> set outcomes \<and> det_data s = Some ds
                        \<longrightarrow> length ds \<le> length d)))"
proof -
  have "\<exists>r. reduce_best None (map caught outcomes) = Inr r
          \<and> (r = None \<or> r \<in> set (map caught outcomes))
          \<and> (\<forall>x. r = Some x \<longrightarrow> det_data x \<noteq> None)
          \<and> (r = None \<longleftrightarrow> (\<forall>x. Some x \<in> set (map caught outcomes) \<longrightarrow> det_data x = None))
          \<and> (\<forall>x d. r = Some x \<and> det_data x = Some d \<longrightarrow>
                (\<forall>y dy. Some y \<in> set (map caught outcomes) \<and> det_data y = Some dy
                    \<longrightarrow> length dy \<le> length d))"
    using reduce_best_result [of None "map caught outcomes"] by simp
  then obtain r where
    red: "reduce_best None (map caught outcomes) = Inr r" and
    r1: "r = None \<or> r \<in> set (map caught outcomes)" and
    r2: "\<forall>x. r = Some x \<longrightarrow> det_data x \<noteq> None" and
    r3: "r = None \<longleftrightarrow> (\<forall>x. Some x \<in> set (map caught outcomes) \<longrightarrow> det_data x = None)" and
    r4: "\<forall>x d. r = Some x \<and> det_data x = Some d \<longrightarrow>
           (\<forall>y dy. Some y \<in> set (map caught outcomes) \<and> det_data y = Some dy
               \<longrightarrow> length dy \<le> length d)"
    by blast
  have "Inr x \<in> set outcomes
        \<and> (\<exists>d. det_data x = Some d
              \<and> (\<forall>s ds. Inr s \<in> set outcomes \<and> det_data s = Some ds \<longrightarrow> length ds \<le> length d))"
    if "r = Some x" for x
  proof -
    from that r1 have "Inr x \<in> set outcomes" using caught_set [of x outcomes] by blast
    moreover from that r2 obtain d where "det_data x = Some d" by auto
    moreover from this that r4
    have "\<forall>s ds. Inr s \<in> set outcomes \<and> det_data s = Some ds \<longrightarrow> length ds \<le> length d"
      using caught_set [of _ outcomes] by blast
    ultimately show ?thesis by blast
  qed
  moreover have "r = None \<longleftrightarrow> (\<forall>x. Inr x \<in> set outcomes \<longrightarrow> det_data x = None)"
    using r3 caught_set [of _ outcomes] by blast
  ultimately show ?thesis unfolding autoDetectWith_def using red by blast
qed

lemma autoDetect_tables: "autoDetect doc = Inr (Some (detectTables doc))"
  by (simp add: autoDetect_def autoDetectWith_def detectors_def caught_def detectTables_def
      Let_def)

lemma demo_product_grid_scored: "map score (scoreContainers [demo_product_grid]) = [0.9]"
  by (simp add: scoreContainers_def pass_simps demo_product_grid_raw)

lemma demo_list_scored: "map score (scoreLists [demo_list]) = [0.8]"
  by (simp add: scoreLists_def pass_simps demo_list_raw)

lemma no_table_in_product_grid:
  "detectTables demo_product_grid =
     \<lparr>det_type = js ''tables'', det_data = Some [], det_confidence = 0\<rparr>"
  by (simp add: detectTables_def all_elements_def demo_product_grid_def demo_product_item_def
      leaf_def is_tag_def blank_def js_def toLowerCase_def)

lemma no_table_in_list:
  "detectTables demo_list =
     \<lparr>det_type = js ''tables'', det_data = Some [], det_confidence = 0\<rparr>"
  by (simp add: detectTables_def all_elements_def demo_list_def demo_list_item_def
      is_tag_def blank_def js_def toLowerCase_def)

lemma demo_table_detected:
  "map_option length (det_data (detectTables demo_table)) = Some 1"
  by (simp add: detectTables_def all_elements_def demo_table_def demo_row_def leaf_def
      is_tag_def blank_def js_def toLowerCase_def)

text \<open>
  Claim C3. The claim expects the three finders to run and the longest of their results to be
  returned. \<open>autoDetect\<close> does call three detectors, each inside its own \<open>try\<close>, and its
  \<open>reduce\<close> keeps the longest of the results that were returned (lemma
  \<open>autoDetectWith_result\<close>). But the class defines \<open>detectTables\<close> only: the calls of
  \<open>this.detectLists\<close> and \<open>this.detectProducts\<close> throw a TypeError, which the \<open>try\<close>
  swallows. So for every document and every configuration with the mode \<open>auto\<close>, \<open>scrape\<close>
  returns the result of \<open>detectTables\<close>, whatever the document holds. For the flex container
  of six product items, which \<open>findGridProducts\<close> finds and \<open>scoreContainers\<close> accepts with
  the score 0.9, and for the list of five items, which \<open>scoreLists\<close> accepts with the score
  0.8, the result returned is the table result without any record; for the table of five rows
  it holds one record.
\<close>

theorem auto_mode_detects_tables_only:
  "detectors doc =
     [Inr (detectTables doc),
      Inl (TypeError (js ''this.detectLists is not a function'')),
      Inl (TypeError (js ''this.detectProducts is not a function''))]
   \<and> autoDetect doc = Inr (Some (detectTables doc))
   \<and> scrape qsa doc \<lparr>mode = js ''auto'', selectors = sels, processors = ps\<rparr>
       = Scraped (Detected (Some (detectTables doc))) 0
   \<and> length (children demo_product_grid) = 6
   \<and> findGridProducts demo_product_grid = [demo_product_grid]
   \<and> map score (scoreContainers [demo_product_grid]) = [0.9]
   \<and> scrape qsa demo_product_grid \<lparr>mode = js ''auto'', selectors = sels, processors = ps\<rparr>
       = Scraped (Detected (Some \<lparr>det_type = js ''tables'', det_data = Some [],
                                   det_confidence = 0\<rparr>)) 0
   \<and> length (children demo_list) = 5
   \<and> map score (scoreLists [demo_list]) = [0.8]
   \<and> scrape qsa demo_list \<lparr>mode = js ''auto'', selectors = sels, processors = ps\<rparr>
       = Scraped (Detected (Some \<lparr>det_type = js ''tables'', det_data = Some [],
                                   det_confidence = 0\<rparr>)) 0
   \<and> map_option length (det_data (detectTables demo_table)) = Some 1"
proof -
  have calls: "detectors doc =
     [Inr (detectTables doc),
      Inl (TypeError (js ''this.detectLists is not a function'')),
      Inl (TypeError (js ''this.detectProducts is not a function''))]"
    by (simp add: detectors_def undefined_method_def js_def)
  have auto: "scrape qsa d \<lparr>mode = js ''auto'', selectors = sels, processors = ps\<rparr>
       = Scraped (Detected (Some (detectTables d))) 0" for d
    by (simp add: scrape_def autoDetect_tables)
  have grid: "length (children demo_product_grid) = 6" by (simp add: product_grid_parts)
  have items: "length (children demo_list) = 5" by (simp add: demo_list_def)
  from calls autoDetect_tables [of doc] auto [of doc] grid product_grid_found
    demo_product_grid_scored auto [of demo_product_grid] items demo_list_scored
    auto [of demo_list] demo_table_detected
  show ?thesis
    unfolding no_table_in_product_grid no_table_in_list by (intro conjI)
qed

text \<open>
  Claim C4. The claim expects an empty record list. \<open>scrape\<close> in the mode \<open>custom\<close> calls
  \<open>this.extractWithSelectors\<close>, which the class does not define; the TypeError is caught by
  \<open>scrape\<close> itself, which returns an object with the field \<open>error\<close>, for every document and
  every selector list.
\<close>

theorem custom_mode_returns_error:
  "scrape qsa doc
     \<lparr>mode = js ''custom'', selectors = Some [js ''#does-not-exist''], processors = ps\<rparr>
   = ScrapeError (js ''this.extractWithSelectors is not a function'')"
  by (simp add: scrape_def undefined_method_def error_message_def js_def)

section \<open>ScrapingEngine\<close>

lemma first_free_free: "first_free pool = Some i \<Longrightarrow> i < length pool \<and> \<not> pool ! i"
proof (induction pool arbitrary: i)
  case Nil
  then show ?case by simp
next
  case (Cons b pool)
  then show ?case by (cases b) (auto split: if_splits)
qed

lemma first_free_none: "first_free pool = None \<longleftrightarrow> (\<forall>b\<in>set pool. b)"
  by (induction pool) auto

lemma released: "first_free pool = Some i \<Longrightarrow> (pool[i := True])[i := False] = pool"
  using first_free_free [of pool i] by (simp add: list_update_same_conv)

lemma released_flag: "first_free pool = Some i \<Longrightarrow> pool[i := False] = pool"
  using first_free_free [of pool i] by (simp add: list_update_same_conv)

lemma processInWorker_sent:
  "snd (snd (processInWorker rt env pool data cfg)) \<noteq> []"
  by (simp add: processInWorker_def split: option.splits sum.splits worker_reply.splits)

text \<open>
  Claim C2. With \<open>k\<close> the key built from the tab and the serialized configuration: a call of
  \<open>extract\<close> sends no message at all exactly when the cache holds an entry under \<open>k\<close> whose
  age at the check is strictly below 30000 ms, and then it resolves with the data of that
  entry and leaves the engine as it was. In every other case (no entry, or an entry of age
  30000 ms or more) it first asks the content script; if the content script answers with an
  error, the call rejects with it and nothing is stored; otherwise the call settles as the
  post-processing does, and when that resolves with a value, the value is stored under \<open>k\<close> with
  the time read at the store, replacing what was there, and no other key changes.
\<close>

theorem extract_cache:
  "(snd (snd (engine_extract rt stringify env s tabId cfg)) = [] \<longleftrightarrow>
      (\<exists>c. cache s (cacheKey stringify tabId cfg) = Some c
           \<and> now_at_check env - timestamp c < 30000))
   \<and> (\<forall>c. cache s (cacheKey stringify tabId cfg) = Some c
           \<and> now_at_check env - timestamp c < 30000 \<longrightarrow>
         engine_extract rt stringify env s tabId cfg = (Resolved (entry_data c), s, []))
   \<and> (\<not> (\<exists>c. cache s (cacheKey stringify tabId cfg) = Some c
              \<and> now_at_check env - timestamp c < 30000) \<longrightarrow>
        (\<forall>e. content_response env = Inl e \<longrightarrow>
           engine_extract rt stringify env s tabId cfg = (Rejected e, s, [SendMessage tabId]))
        \<and> (\<forall>data. content_response env = Inr data \<longrightarrow>
             fst (engine_extract rt stringify env s tabId cfg)
               = fst (processInWorker rt env (workerPool s) data cfg)
             \<and> snd (snd (engine_extract rt stringify env s tabId cfg))
               = SendMessage tabId # snd (snd (processInWorker rt env (workerPool s) data cfg)))
        \<and> (\<forall>v. fst (engine_extract rt stringify env s tabId cfg) = Resolved v \<longrightarrow>
             cache (fst (snd (engine_extract rt stringify env s tabId cfg)))
               = (cache s)(cacheKey stringify tabId cfg \<mapsto>
                    \<lparr>entry_data = v, timestamp = now_at_store env\<rparr>))
        \<and> ((\<forall>v. fst (engine_extract rt stringify env s tabId cfg) \<noteq> Resolved v) \<longrightarrow>
             cache (fst (snd (engine_extract rt stringify env s tabId cfg))) = cache s))"
proof -
  let ?k = "cacheKey stringify tabId cfg"
  let ?fresh = "\<exists>c. cache s ?k = Some c \<and> now_at_check env - timestamp c < 30000"
  have fresh_iff: "cached_fresh s ?k (now_at_check env) = None \<longleftrightarrow> \<not> ?fresh"
    by (auto simp: cached_fresh_def split: option.splits)
  have hit: "engine_extract rt stringify env s tabId cfg = (Resolved (entry_data c), s, [])"
    if "cache s ?k = Some c" "now_at_check env - timestamp c < 30000" for c
    using that by (simp add: engine_extract_def cached_fresh_def)
  have miss_err: "engine_extract rt stringify env s tabId cfg = (Rejected e, s, [SendMessage tabId])"
    if "\<not> ?fresh" "content_response env = Inl e" for e
    using that fresh_iff by (simp add: engine_extract_def)
  have miss_ok:
    "fst (engine_extract rt stringify env s tabId cfg)
       = fst (processInWorker rt env (workerPool s) data cfg)
     \<and> snd (snd (engine_extract rt stringify env s tabId cfg))
       = SendMessage tabId # snd (snd (processInWorker rt env (workerPool s) data cfg))
     \<and> (\<forall>v. fst (processInWorker rt env (workerPool s) data cfg) = Resolved v \<longrightarrow>
           cache (fst (snd (engine_extract rt stringify env s tabId cfg)))
             = (cache s)(?k \<mapsto> \<lparr>entry_data = v, timestamp = now_at_store env\<rparr>))
     \<and> ((\<forall>v. fst (processInWorker rt env (workerPool s) data cfg) \<noteq> Resolved v) \<longrightarrow>
           cache (fst (snd (engine_extract rt stringify env s tabId cfg))) = cache s)"
    if "\<not> ?fresh" "content_response env = Inr data" for data
  proof (cases "processInWorker rt env (workerPool s) data cfg")
    case (fields r pool sent)
    with that fresh_iff show ?thesis
      by (cases r) (simp_all add: engine_extract_def)
  qed
  have sent_iff: "snd (snd (engine_extract rt stringify env s tabId cfg)) = [] \<longleftrightarrow> ?fresh"
  proof (cases ?fresh)
    case True
    then show ?thesis using hit by auto
  next
    case False
    show ?thesis
    proof (cases "content_response env")
      case (Inl e)
      with False miss_err show ?thesis by simp
    next
      case (Inr data)
      with False miss_ok show ?thesis by simp
    qed
  qed
  have stored:
    "cache (fst (snd (engine_extract rt stringify env s tabId cfg)))
       = (cache s)(?k \<mapsto> \<lparr>entry_data = v, timestamp = now_at_store env\<rparr>)"
    if "\<not> ?fresh" "fst (engine_extract rt stringify env s tabId cfg) = Resolved v" for v
  proof (cases "content_response env")
    case (Inl e)
    with that miss_err show ?thesis by simp
  next
    case (Inr data)
    with that miss_ok [of data] show ?thesis by simp
  qed
  have kept: "cache (fst (snd (engine_extract rt stringify env s tabId cfg))) = cache s"
    if "\<not> ?fresh" "\<forall>v. fst (engine_extract rt stringify env s tabId cfg) \<noteq> Resolved v"
  proof (cases "content_response env")
    case (Inl e)
    with that miss_err show ?thesis by simp
  next
    case (Inr data)
    with that miss_ok [of data] show ?thesis by simp
  qed
  show ?thesis
    using sent_iff hit miss_err miss_ok stored kept by blast
qed

lemma demo_key_eq: "cacheKey demo_stringify 7 demo_config = demo_key"
  by (simp add: cacheKey_def demo_stringify_def demo_config_def demo_key_def int_toString_def
      js_def)

lemma demo_cached: "cache demo_engine demo_key = Some \<lparr>entry_data = JArray [4, 2], timestamp = 1000\<rparr>"
  by (simp add: demo_engine_def)

lemma demo_pool: "workerPool demo_engine = [True, True, False]" "first_free [True, True, False] = Some 2"
  by (simp_all add: demo_engine_def)

lemma demo_env_fields:
  "now_at_check (demo_environment now answer) = now"
  "now_at_store (demo_environment now answer) = now + 40"
  "content_response (demo_environment now answer) = Inr (JArray [3, 5, 3])"
  "worker_answer (demo_environment now answer) = answer"
  by (simp_all add: demo_environment_def)

lemma demo_hit:
  "engine_extract demo_runtime demo_stringify (demo_environment 30999 (Posted (JArray [3, 5])))
     demo_engine 7 demo_config
   = (Resolved (JArray [4, 2]), demo_engine, [])"
  by (simp add: engine_extract_def cached_fresh_def demo_key_eq demo_cached demo_env_fields)

lemma demo_miss:
  "engine_extract demo_runtime demo_stringify (demo_environment 31000 (Posted (JArray [3, 5])))
     demo_engine 7 demo_config
   = (Resolved (JArray [3, 5]),
      demo_engine\<lparr>cache := (cache demo_engine)(demo_key \<mapsto>
                      \<lparr>entry_data = JArray [3, 5], timestamp = 31040\<rparr>)\<rparr>,
      [SendMessage 7, PostMessage 2])"
  by (simp add: engine_extract_def cached_fresh_def demo_key_eq demo_cached demo_env_fields
      processInWorker_def demo_pool)

theorem extract_cache_witness:
  "cache demo_engine (cacheKey demo_stringify 7 demo_config)
     = Some \<lparr>entry_data = JArray [4, 2], timestamp = 1000\<rparr>
   \<and> engine_extract demo_runtime demo_stringify
        (demo_environment 30999 (Posted (JArray [3, 5]))) demo_engine 7 demo_config
       = (Resolved (JArray [4, 2]), demo_engine, [])
   \<and> snd (snd (engine_extract demo_runtime demo_stringify
        (demo_environment 31000 (Posted (JArray [3, 5]))) demo_engine 7 demo_config))
       = [SendMessage 7, PostMessage 2]
   \<and> cache (fst (snd (engine_extract demo_runtime demo_stringify
        (demo_environment 31000 (Posted (JArray [3, 5]))) demo_engine 7 demo_config)))
        demo_key
       = Some \<lparr>entry_data = JArray [3, 5], timestamp = 31040\<rparr>"
proof -
  have fresh: "now_at_check (demo_environment 30999 (Posted (JArray [3, 5]))) - 1000 < 30000"
    by (simp add: demo_env_fields)
  from extract_cache [of demo_runtime demo_stringify
      "demo_environment 30999 (Posted (JArray [3, 5]))" demo_engine 7 demo_config]
    fresh
  have "engine_extract demo_runtime demo_stringify
        (demo_environment 30999 (Posted (JArray [3, 5]))) demo_engine 7 demo_config
       = (Resolved (JArray [4, 2]), demo_engine, [])"
    by (simp add: demo_key_eq demo_cached)
  then show ?thesis by (simp add: demo_miss demo_key_eq demo_cached)
qed

text \<open>
  Claim C5, as the code has it. When a worker is free, the job is posted to it, and when that
  job fails, the worker is released and the promise of \<open>processInWorker\<close> rejects with the
  worker's error: \<open>extract\<close> logs it and throws it again, so the caller of \<open>extract\<close> gets
  the failure and nothing is stored. \<open>processInline\<close> runs in one case only, when no worker
  of the pool is free, and then the call settles as \<open>processInline\<close> does.
\<close>

theorem worker_failure_propagates:
  "(first_free pool = Some i \<and> worker_answer env = Crashed e \<longrightarrow>
      processInWorker rt env pool data cfg = (Rejected e, pool, [PostMessage i]))
   \<and> (cached_fresh s (cacheKey stringify tabId cfg) (now_at_check env) = None
       \<and> content_response env = Inr data
       \<and> first_free (workerPool s) = Some i \<and> worker_answer env = Crashed e \<longrightarrow>
      engine_extract rt stringify env s tabId cfg
        = (Rejected e, s, [SendMessage tabId, PostMessage i]))
   \<and> (first_free pool = None \<longrightarrow>
      processInWorker rt env pool data cfg
        = ((case processInline rt data cfg of Inl err \<Rightarrow> Rejected err | Inr v \<Rightarrow> Resolved v),
           pool, [Inline]))
   \<and> (first_free pool = Some i \<longrightarrow>
      snd (snd (processInWorker rt env pool data cfg)) = [PostMessage i])"
proof (intro conjI impI; (elim conjE)?)
  assume "first_free pool = Some i" "worker_answer env = Crashed e"
  then show "processInWorker rt env pool data cfg = (Rejected e, pool, [PostMessage i])"
    by (simp add: processInWorker_def released_flag)
next
  assume "cached_fresh s (cacheKey stringify tabId cfg) (now_at_check env) = None"
    "content_response env = Inr data" "first_free (workerPool s) = Some i"
    "worker_answer env = Crashed e"
  then show "engine_extract rt stringify env s tabId cfg
        = (Rejected e, s, [SendMessage tabId, PostMessage i])"
    by (simp add: engine_extract_def processInWorker_def released_flag)
next
  assume "first_free pool = None"
  then show "processInWorker rt env pool data cfg
        = ((case processInline rt data cfg of Inl err \<Rightarrow> Rejected err | Inr v \<Rightarrow> Resolved v),
           pool, [Inline])"
    by (simp add: processInWorker_def split: sum.splits)
next
  assume "first_free pool = Some i"
  then show "snd (snd (processInWorker rt env pool data cfg)) = [PostMessage i]"
    by (simp add: processInWorker_def split: worker_reply.splits)
qed

lemma demo_inline: "processInline demo_runtime (JArray [3, 5, 3]) demo_config = Inr (JArray [3, 5])"
  by (simp add: processInline_def demo_config_def apply_processor_def processors_member_def
      own_processors_def run_own_def spread_set_def js_def)

theorem worker_failure_propagates_witness:
  "first_free (workerPool demo_engine) = Some 2
   \<and> worker_answer (demo_environment 50000 (Crashed (RuntimeError (js ''worker failed''))))
       = Crashed (RuntimeError (js ''worker failed''))
   \<and> engine_extract demo_runtime demo_stringify
        (demo_environment 50000 (Crashed (RuntimeError (js ''worker failed''))))
        demo_engine 7 demo_config
       = (Rejected (RuntimeError (js ''worker failed'')), demo_engine,
          [SendMessage 7, PostMessage 2])
   \<and> first_free [True, True] = None
   \<and> processInWorker demo_runtime
        (demo_environment 50000 (Crashed (RuntimeError (js ''worker failed''))))
        [True, True] (JArray [3, 5, 3]) demo_config
       = (Resolved (JArray [3, 5]), [True, True], [Inline])"
proof -
  let ?env = "demo_environment 50000 (Crashed (RuntimeError (js ''worker failed'')))"
  have stale: "cached_fresh demo_engine (cacheKey demo_stringify 7 demo_config)
                 (now_at_check ?env) = None"
    by (simp add: cached_fresh_def demo_key_eq demo_cached demo_env_fields)
  have busy: "first_free [True, True] = None" by simp
  from worker_failure_propagates [of "workerPool demo_engine" 2 ?env
      "RuntimeError (js ''worker failed'')" demo_runtime "JArray [3, 5, 3]" demo_config
      demo_engine demo_stringify 7] stale
  have a: "engine_extract demo_runtime demo_stringify ?env demo_engine 7 demo_config
       = (Rejected (RuntimeError (js ''worker failed'')), demo_engine,
          [SendMessage 7, PostMessage 2])"
    by (simp add: demo_pool demo_env_fields)
  from worker_failure_propagates [of "[True, True]" 2 ?env
      "RuntimeError (js ''worker failed'')" demo_runtime "JArray [3, 5, 3]" demo_config
      demo_engine demo_stringify 7] busy
  have b: "processInWorker demo_runtime ?env [True, True] (JArray [3, 5, 3]) demo_config
       = (Resolved (JArray [3, 5]), [True, True], [Inline])"
    by (simp add: demo_inline)
  show ?thesis using a b by (simp add: demo_pool demo_env_fields)
qed

theorem worker_failure_not_caught:
  "first_free (workerPool demo_engine) = Some 2
   \<and> processInline demo_runtime (JArray [3, 5, 3]) demo_config = Inr (JArray [3, 5])
   \<and> engine_extract demo_runtime demo_stringify
        (demo_environment 50000 (Crashed (RuntimeError (js ''worker failed''))))
        demo_engine 7 demo_config
       = (Rejected (RuntimeError (js ''worker failed'')), demo_engine,
          [SendMessage 7, PostMessage 2])"
  by (simp add: demo_inline demo_pool engine_extract_def cached_fresh_def demo_key_eq demo_cached
      demo_env_fields processInWorker_def)

section \<open>processInline\<close>

lemma absent_skipped:
  "processors_member (name p) = Absent \<Longrightarrow> apply_processor rt result p = Inr result"
  by (simp add: apply_processor_def)

lemma no_processors_unchanged:
  "processors cfg = None \<Longrightarrow> processInline rt data cfg = Inr data"
  by (simp add: processInline_def)

lemma absent_names_unchanged:
  assumes "processors cfg = Some ps" and "\<forall>p\<in>set ps. processors_member (name p) = Absent"
  shows "processInline rt data cfg = Inr data"
proof -
  have "apply_processors rt data ps = Inr data" using assms(2)
    by (induction ps) (simp_all add: absent_skipped)
  with assms(1) show ?thesis by (simp add: processInline_def)
qed

lemma processors_in_order:
  "apply_processors rt result (ps @ qs) =
     (case apply_processors rt result ps of
        Inl e \<Rightarrow> Inl e
      | Inr result' \<Rightarrow> apply_processors rt result' qs)"
  by (induction ps arbitrary: result) (simp_all split: sum.splits)

lemma member_cases:
  "processors_member n = Absent \<longleftrightarrow>
     n \<notin> set own_processors \<and> n \<notin> set object_prototype_functions \<and> n \<noteq> js ''__proto__''"
  by (simp add: processors_member_def)

text \<open>
  Claim C10. The claim expects every name other than \<open>deduplicate\<close>, \<open>sort\<close> and \<open>filter\<close> to
  be skipped. \<open>processors[processor.name]\<close> also finds what the table inherits: for the name
  \<open>__proto__\<close> the value found is an object, the guard lets it pass and the call raises a
  TypeError; for the name \<open>toString\<close> the function of \<open>Object.prototype\<close> is called and its
  value replaces the data.
\<close>

theorem inherited_names_not_skipped:
  "processInline rt (JArray xs)
     \<lparr>mode = m, selectors = sels,
      processors = Some [\<lparr>name = js ''__proto__'', args = Some []\<rparr>]\<rparr>
     = Inl (TypeError (js ''processors[processor.name] is not a function''))
   \<and> processInline rt (JArray xs)
     \<lparr>mode = m, selectors = sels,
      processors = Some [\<lparr>name = js ''toString'', args = Some []\<rparr>]\<rparr>
     = object_prototype_call rt (js ''toString'') (JArray xs) []"
  by (simp add: processInline_def apply_processor_def processors_member_def own_processors_def
      object_prototype_functions_def js_def split: sum.splits)

lemma demo_unknown_name:
  "processInline demo_runtime (JArray [3, 5, 3])
     \<lparr>mode = js ''table'', selectors = None,
      processors = Some [\<lparr>name = js ''uppercase'', args = None\<rparr>,
                         \<lparr>name = js ''deduplicate'', args = Some []\<rparr>]\<rparr>
   = Inr (JArray [3, 5])"
  by (simp add: processInline_def apply_processor_def processors_member_def own_processors_def
      object_prototype_functions_def run_own_def spread_set_def js_def)

end
